theory Spec2Isabelle
  imports Complex_Main "HOL-Library.Log_Nat" "HOL-Library.Code_Target_Nat"
begin

section \<open>Python values\<close>

text \<open>
  A Python \<open>str\<close> is a sequence of Unicode code points; a code point is a natural
  number. String literals of the source that are plain ASCII are written \<open>asc ''...''\<close>,
  the others as their code points (the source file is in composed form, NFC).
\<close>

type_synonym cp = nat
type_synonym pystr = "cp list"

definition asc :: "string \<Rightarrow> pystr" where
  "asc s = map of_char s"

text \<open>
  A Python \<open>float\<close> is an IEEE binary64: \<open>Fin q\<close> is the finite double whose exact
  value is the rational \<open>q\<close> (\<open>Fin 0\<close> is \<open>+0.0\<close>), \<open>NegZero\<close> is \<open>-0.0\<close>.
\<close>

datatype pyfloat = Fin rat | NegZero | PInf | NInf | NaN

text \<open>
  The objects that a cell or a header of a sheet read by pandas can hold: a missing value
  (\<open>None\<close>, \<open>NaT\<close> or the float \<open>nan\<close>), a string, an integer, a float, a boolean or a
  timestamp (opaque, named by a number).
\<close>

datatype pyobj = PNone | PNaT | PStr pystr | PInt int | PFloat pyfloat | PBool bool | PTime nat

text \<open>
  What the program takes from Python's runtime and from pandas, and does not define
  itself, is a parameter: the rows of the Unicode Character Database behind
  \<open>unicodedata.normalize\<close>, \<open>unicodedata.combining\<close>, \<open>str.lower\<close>, \<open>str.isalnum\<close>
  and \<open>str.strip\<close>, the parsers of numbers and dates, and the printers of floats and
  timestamps.
\<close>

record pylib =
  nfd_char :: "cp \<Rightarrow> cp list"  \<comment> \<open>the canonical decomposition (NFD) of the one-character string\<close>
  combining :: "cp \<Rightarrow> nat"  \<comment> \<open>\<open>unicodedata.combining\<close>: the canonical combining class\<close>
  lower_full :: "cp \<Rightarrow> cp list"  \<comment> \<open>the full lowercase mapping of one code point\<close>
  cased :: "cp \<Rightarrow> bool"
  case_ignorable :: "cp \<Rightarrow> bool"
  isalnum :: "cp \<Rightarrow> bool"  \<comment> \<open>\<open>str.isalnum\<close> of the one-character string\<close>
  isspace :: "cp \<Rightarrow> bool"  \<comment> \<open>the characters that \<open>str.strip()\<close> removes\<close>
  float_of_str :: "pystr \<Rightarrow> pyfloat option"  \<comment> \<open>\<open>float(s)\<close>; \<open>None\<close> is \<open>ValueError\<close>\<close>
  numeric_of_str :: "pystr \<Rightarrow> pyfloat option"  \<comment> \<open>\<open>pd.to_numeric\<close> of a string cell\<close>
  float_repr :: "rat \<Rightarrow> pystr"  \<comment> \<open>\<open>str(x)\<close> of the finite float of this value (not \<open>-0.0\<close>)\<close>
  time_str :: "nat \<Rightarrow> pystr"  \<comment> \<open>\<open>str(t)\<close> of a timestamp\<close>
  strftime :: "nat \<Rightarrow> pystr \<Rightarrow> pystr"
  to_datetime :: "pyobj \<Rightarrow> pyobj option"  \<comment> \<open>\<open>pd.to_datetime(v, errors="coerce")\<close>; \<open>None\<close> is a raise\<close>

section \<open>String utilities\<close>

subsection \<open>Library: decimal digits, \<open>str()\<close>, NFD, \<open>str.lower\<close>\<close>

function dec_digits :: "nat \<Rightarrow> pystr" where
  "dec_digits n = (if n < 10 then [48 + n] else dec_digits (n div 10) @ [48 + n mod 10])"
  by pat_completeness auto
termination
  by (relation "measure id") auto

declare dec_digits.simps [simp del]

definition str_of_int :: "int \<Rightarrow> pystr" where
  "str_of_int n = (if n < 0 then 45 # dec_digits (nat (- n)) else dec_digits (nat n))"

fun py_str :: "pylib \<Rightarrow> pyobj \<Rightarrow> pystr" where
  "py_str L PNone = asc ''None''"
| "py_str L PNaT = asc ''NaT''"
| "py_str L (PStr s) = s"
| "py_str L (PInt n) = str_of_int n"
| "py_str L (PFloat (Fin q)) = float_repr L q"
| "py_str L (PFloat NegZero) = asc ''-0.0''"
| "py_str L (PFloat PInf) = asc ''inf''"
| "py_str L (PFloat NInf) = asc ''-inf''"
| "py_str L (PFloat NaN) = asc ''nan''"
| "py_str L (PBool b) = (if b then asc ''True'' else asc ''False'')"
| "py_str L (PTime t) = time_str L t"

text \<open>
  \<open>normalize("NFD", s)\<close>: every character is replaced by its canonical decomposition,
  then every maximal run of characters of nonzero combining class is sorted by class,
  stably (the canonical ordering). \<open>run\<close> is the run read so far.
\<close>

fun canon_order :: "(cp \<Rightarrow> nat) \<Rightarrow> cp list \<Rightarrow> cp list \<Rightarrow> cp list" where
  "canon_order k run [] = sort_key k run"
| "canon_order k run (c # cs) =
     (if k c = 0 then sort_key k run @ c # canon_order k [] cs
      else canon_order k (run @ [c]) cs)"

definition nfd :: "pylib \<Rightarrow> pystr \<Rightarrow> pystr" where
  "nfd L s = canon_order (combining L) [] (concat (map (nfd_char L) s))"

text \<open>
  \<open>str.lower\<close> maps every character by its full lowercase mapping, but for the Greek
  capital sigma (U+03A3), which becomes the final sigma (U+03C2) when a cased letter
  comes before it and none after it, case-ignorable characters skipped, and the small
  sigma (U+03C3) otherwise. \<open>seen\<close> is the text already read, last character first.
\<close>

definition first_cased :: "pylib \<Rightarrow> pystr \<Rightarrow> bool" where
  "first_cased L s = (case dropWhile (case_ignorable L) s of [] \<Rightarrow> False | c # _ \<Rightarrow> cased L c)"

definition final_sigma :: "pylib \<Rightarrow> pystr \<Rightarrow> pystr \<Rightarrow> bool" where
  "final_sigma L seen rest = (first_cased L seen \<and> \<not> first_cased L rest)"

fun lower_from :: "pylib \<Rightarrow> pystr \<Rightarrow> pystr \<Rightarrow> pystr" where
  "lower_from L seen [] = []"
| "lower_from L seen (c # cs) =
     (if c = 931 then [if final_sigma L seen cs then 962 else 963] else lower_full L c)
     @ lower_from L (c # seen) cs"

definition py_lower :: "pylib \<Rightarrow> pystr \<Rightarrow> pystr" where
  "py_lower L s = lower_from L [] s"

subsection \<open>\<open>strip_accents\<close>, \<open>normalize_key\<close>, \<open>safe_filename\<close>\<close>

fun strip_accents :: "pylib \<Rightarrow> pyobj \<Rightarrow> pyobj" where
  "strip_accents L (PStr text) = PStr (filter (\<lambda>c. combining L c = 0) (nfd L text))"
| "strip_accents L v = v"

text \<open>\<open>.replace(" ", "")\<close> removes every space (U+0020).\<close>

fun normalize_key :: "pylib \<Rightarrow> pyobj \<Rightarrow> pyobj" where
  "normalize_key L (PStr text) =
     (case strip_accents L (PStr text) of
        PStr t \<Rightarrow> PStr (filter (\<lambda>c. c \<noteq> 32) (py_lower L t))
      | v \<Rightarrow> v)"
| "normalize_key L v = v"

declare strip_accents.simps [simp del] normalize_key.simps [simp del]

definition keep :: pystr where
  "keep = asc ''-_.() []''"

definition safe_filename :: "pylib \<Rightarrow> pyobj \<Rightarrow> pystr" where
  "safe_filename L v =
     (let text = (case v of PStr s \<Rightarrow> s | _ \<Rightarrow> py_str L v)
      in map (\<lambda>ch. if isalnum L ch \<or> ch \<in> set keep then ch else 95) text)"

section \<open>Numbers and the formatters\<close>

subsection \<open>Library: binary64 arithmetic, \<open>round\<close>, \<open>float()\<close>, number formats\<close>

text \<open>
  \<open>round_half_even\<close> is the nearest integer, a tie going to the even one: Python's
  \<open>round(x)\<close> on a float, and the rounding of the format \<open>.0f\<close>.
\<close>

definition round_half_even :: "rat \<Rightarrow> int" where
  "round_half_even q =
     (let f = \<lfloor>q\<rfloor>; d = q - of_int f
      in if d < 1 / 2 then f else if 1 / 2 < d then f + 1 else if even f then f else f + 1)"

text \<open>
  \<open>to_double q\<close> is the double nearest to the rational \<open>q\<close> (round to nearest, ties to
  even): 53 significant bits \<open>m\<close>, the least exponent \<open>-1022\<close>, and an infinity when
  the rounded value reaches \<open>2 ^ 1024\<close> (the exponent is above \<open>1023\<close>, or it is \<open>1023\<close>
  and the significand rounds up to \<open>2 ^ 53\<close>). \<open>ilog2 a\<close> is the exponent of \<open>a > 0\<close>, the integer \<open>e\<close> with
  \<open>2 ^ e \<le> a < 2 ^ (e + 1)\<close>.
\<close>

definition ilog2 :: "rat \<Rightarrow> int" where
  "ilog2 a =
     (let (n, d) = quotient_of a; e = bitlen n - bitlen d
      in if 2 powi e \<le> a then e else e - 1)"

definition to_double :: "rat \<Rightarrow> pyfloat" where
  "to_double q =
     (if q = 0 then Fin 0
      else
        let a = \<bar>q\<bar>;
            e = max (ilog2 a) (- 1022);
            u = 2 powi (e - 52);
            m = round_half_even (a / u)
        in if 1023 < e \<or> (e = 1023 \<and> m = 2 ^ 53) then (if q < 0 then NInf else PInf)
           else if m = 0 then (if q < 0 then NegZero else Fin 0)
           else Fin (if q < 0 then - (of_int m * u) else of_int m * u))"

fun fl_zero :: "pyfloat \<Rightarrow> bool" where
  "fl_zero (Fin q) = (q = 0)"
| "fl_zero NegZero = True"
| "fl_zero x = False"

fun fl_inf :: "pyfloat \<Rightarrow> bool" where
  "fl_inf PInf = True"
| "fl_inf NInf = True"
| "fl_inf x = False"

fun fl_neg :: "pyfloat \<Rightarrow> bool" where
  "fl_neg (Fin q) = (q < 0)"
| "fl_neg NegZero = True"
| "fl_neg NInf = True"
| "fl_neg x = False"

fun fl_value :: "pyfloat \<Rightarrow> rat" where
  "fl_value (Fin q) = q"
| "fl_value x = 0"

text \<open>The product of two doubles.\<close>

definition fl_mul :: "pyfloat \<Rightarrow> pyfloat \<Rightarrow> pyfloat" where
  "fl_mul x y =
     (if x = NaN \<or> y = NaN then NaN
      else if (fl_inf x \<and> fl_zero y) \<or> (fl_zero x \<and> fl_inf y) then NaN
      else if fl_inf x \<or> fl_inf y then (if fl_neg x \<noteq> fl_neg y then NInf else PInf)
      else if fl_zero x \<or> fl_zero y then (if fl_neg x \<noteq> fl_neg y then NegZero else Fin 0)
      else to_double (fl_value x * fl_value y))"

datatype pyexn = ValueError | TypeError | OverflowError

text \<open>\<open>float(value)\<close>, and \<open>round(x)\<close> of a float (an \<open>int\<close>, or a raise).\<close>

fun py_float :: "pylib \<Rightarrow> pyobj \<Rightarrow> pyexn + pyfloat" where
  "py_float L (PStr s) = (case float_of_str L s of None \<Rightarrow> Inl ValueError | Some x \<Rightarrow> Inr x)"
| "py_float L (PInt n) =
     (case to_double (of_int n) of
        PInf \<Rightarrow> Inl OverflowError | NInf \<Rightarrow> Inl OverflowError | x \<Rightarrow> Inr x)"
| "py_float L (PFloat x) = Inr x"
| "py_float L (PBool b) = Inr (Fin (if b then 1 else 0))"
| "py_float L v = Inl TypeError"

fun py_round :: "pyfloat \<Rightarrow> pyexn + int" where
  "py_round (Fin q) = Inr (round_half_even q)"
| "py_round NegZero = Inr 0"
| "py_round NaN = Inl ValueError"
| "py_round x = Inl OverflowError"

text \<open>
  The format \<open>,\<close> of an integer: the decimal digits in groups of three from the right,
  a comma between the groups. The format \<open>,.0f\<close> of a float: the same for its value
  rounded to no decimal place, the sign kept.
\<close>

definition pad3 :: "nat \<Rightarrow> pystr" where
  "pad3 m = [48 + m div 100, 48 + m div 10 mod 10, 48 + m mod 10]"

function group3 :: "nat \<Rightarrow> pystr" where
  "group3 n = (if n < 1000 then dec_digits n else group3 (n div 1000) @ 44 # pad3 (n mod 1000))"
  by pat_completeness auto
termination
  by (relation "measure id") auto

declare group3.simps [simp del]

definition fmt_int_comma :: "int \<Rightarrow> pystr" where
  "fmt_int_comma n = (if n < 0 then 45 # group3 (nat (- n)) else group3 (nat n))"

fun fmt_float_comma0 :: "pyfloat \<Rightarrow> pystr" where
  "fmt_float_comma0 (Fin q) =
     (if q < 0 then 45 # group3 (nat (round_half_even (- q))) else group3 (nat (round_half_even q)))"
| "fmt_float_comma0 NegZero = asc ''-0''"
| "fmt_float_comma0 PInf = asc ''inf''"
| "fmt_float_comma0 NInf = asc ''-inf''"
| "fmt_float_comma0 NaN = asc ''nan''"

definition replace_char :: "cp \<Rightarrow> cp \<Rightarrow> pystr \<Rightarrow> pystr" where
  "replace_char a b s = map (\<lambda>c. if c = a then b else c) s"

definition isna :: "pyobj \<Rightarrow> bool" where
  "isna v = (v = PNone \<or> v = PNaT \<or> v = PFloat NaN)"

subsection \<open>\<open>format_date\<close>, \<open>format_int\<close>, \<open>format_currency\<close>\<close>

definition format_date :: "pylib \<Rightarrow> pyobj \<Rightarrow> pystr \<Rightarrow> pystr" where
  "format_date L v fmt =
     (if isna v then []
      else case v of
        PTime t \<Rightarrow> strftime L t fmt
      | _ \<Rightarrow>
         (case to_datetime L v of
            None \<Rightarrow> py_str L v
          | Some dt \<Rightarrow>
             if isna dt then py_str L v
             else (case dt of PTime t \<Rightarrow> strftime L t fmt | _ \<Rightarrow> py_str L v)))"

text \<open>The body of the \<open>try\<close> of \<open>format_int\<close>, and the function with its \<open>except\<close>.\<close>

definition format_int_try :: "pylib \<Rightarrow> pyobj \<Rightarrow> pyexn + pystr" where
  "format_int_try L v =
     (case py_float L v of
        Inl e \<Rightarrow> Inl e
      | Inr x \<Rightarrow>
         (case py_round x of
            Inl e \<Rightarrow> Inl e
          | Inr n \<Rightarrow> Inr (replace_char 44 46 (fmt_int_comma n))))"

definition format_int :: "pylib \<Rightarrow> pyobj \<Rightarrow> pystr" where
  "format_int L v =
     (if isna v \<or> v = PStr [] then []
      else case format_int_try L v of Inr s \<Rightarrow> s | Inl e \<Rightarrow> py_str L v)"

definition format_currency_try :: "pylib \<Rightarrow> pyobj \<Rightarrow> pyexn + pystr" where
  "format_currency_try L v =
     (case py_float L v of
        Inl e \<Rightarrow> Inl e
      | Inr x \<Rightarrow> Inr (replace_char 44 46 (fmt_float_comma0 x)))"

definition format_currency :: "pylib \<Rightarrow> pyobj \<Rightarrow> pystr" where
  "format_currency L v =
     (if isna v \<or> v = PStr [] then []
      else case format_currency_try L v of Inr s \<Rightarrow> s | Inl e \<Rightarrow> py_str L v)"

section \<open>Data frames and the columns of the goods table\<close>

text \<open>
  A \<open>DataFrame\<close>: its column labels, in their order, and its rows, a row giving the
  cell under each label. A \<open>Series\<close> taken from a row (\<open>iterrows\<close>) is indexed by the
  labels of the frame. Labels are distinct, as \<open>read_excel\<close> makes them.
\<close>

record dataframe =
  df_columns :: "pyobj list"
  df_rows :: "(pyobj \<Rightarrow> pyobj) list"

text \<open>
  \<open>pick_col\<close>: the dictionary \<open>available\<close> is filled in the order of the columns, a later
  column replacing an earlier one of the same key; the candidates are tried in their order.
  The result is the label, or \<open>PNone\<close>.
\<close>

definition available :: "pylib \<Rightarrow> pyobj list \<Rightarrow> (pyobj \<rightharpoonup> pyobj)" where
  "available L cols =
     fold (\<lambda>c m. case c of PStr _ \<Rightarrow> m(normalize_key L c \<mapsto> c) | _ \<Rightarrow> m) cols Map.empty"

fun pick_loop :: "pylib \<Rightarrow> (pyobj \<rightharpoonup> pyobj) \<Rightarrow> pystr list \<Rightarrow> pyobj" where
  "pick_loop L av [] = PNone"
| "pick_loop L av (cand # cands) =
     (let k = normalize_key L (PStr cand)
      in case av k of Some c \<Rightarrow> c | None \<Rightarrow> pick_loop L av cands)"

definition pick_col :: "pylib \<Rightarrow> dataframe \<Rightarrow> pystr list \<Rightarrow> pyobj" where
  "pick_col L df candidates = pick_loop L (available L (df_columns df)) candidates"

section \<open>The goods table\<close>

text \<open>
  A sub-document is made by a template's document (\<open>doc.new_subdoc()\<close>) and holds
  paragraphs and tables; a table has a style and rows of cell texts.
\<close>

datatype block = Paragraph pystr | Table pystr "pystr list list"

record subdoc =
  sd_doc :: pystr
  sd_body :: "block list"

definition new_subdoc :: "pystr \<Rightarrow> subdoc" where
  "new_subdoc doc = \<lparr> sd_doc = doc, sd_body = [] \<rparr>"

definition add_block :: "block \<Rightarrow> subdoc \<Rightarrow> subdoc" where
  "add_block b sd = sd \<lparr> sd_body := sd_body sd @ [b] \<rparr>"

definition df_empty :: "dataframe \<Rightarrow> bool" where
  "df_empty df = (df_columns df = [] \<or> df_rows df = [])"

text \<open>\<open>df[name] = values\<close>, the values computed row by row: a new last column, or new
  cells under the label when the frame has it.\<close>

definition set_col :: "pyobj \<Rightarrow> ((pyobj \<Rightarrow> pyobj) \<Rightarrow> pyobj) \<Rightarrow> dataframe \<Rightarrow> dataframe" where
  "set_col name f df =
     \<lparr> df_columns = (if name \<in> set (df_columns df) then df_columns df else df_columns df @ [name]),
       df_rows = map (\<lambda>r. r(name := f r)) (df_rows df) \<rparr>"

text \<open>\<open>pd.to_numeric(..., errors="coerce")\<close> on one cell, then \<open>.fillna(0)\<close>. Numeric
  columns are taken at \<open>float64\<close>.\<close>

fun to_numeric :: "pylib \<Rightarrow> pyobj \<Rightarrow> pyfloat" where
  "to_numeric L (PStr s) = (case numeric_of_str L s of None \<Rightarrow> NaN | Some x \<Rightarrow> x)"
| "to_numeric L (PInt n) = to_double (of_int n)"
| "to_numeric L (PFloat x) = x"
| "to_numeric L (PBool b) = Fin (if b then 1 else 0)"
| "to_numeric L v = NaN"

definition fillna0 :: "pyfloat \<Rightarrow> pyfloat" where
  "fillna0 x = (if x = NaN then Fin 0 else x)"

fun float_of_cell :: "pyobj \<Rightarrow> pyfloat" where
  "float_of_cell (PFloat x) = x"
| "float_of_cell v = NaN"

text \<open>Python's truth value of a label or \<open>None\<close> (\<open>cols_map["soluong"] and ...\<close>).\<close>

fun truthy :: "pyobj \<Rightarrow> bool" where
  "truthy PNone = False"
| "truthy (PStr s) = (s \<noteq> [])"
| "truthy (PInt n) = (n \<noteq> 0)"
| "truthy (PFloat x) = (\<not> fl_zero x)"
| "truthy (PBool b) = b"
| "truthy v = True"

text \<open>The candidate spellings, as the source lists them.\<close>

definition cand_ten :: "pystr list" where
  "cand_ten =
     [[84, 234, 110, 32, 104, 224, 110, 103], asc ''Ten hang'',
      [84, 101, 110, 32, 104, 224, 110, 103], [84, 234, 110, 32, 72, 224, 110, 103],
      [84, 234, 110, 72, 72], asc ''TenHH'']"

definition cand_soluong :: "pystr list" where
  "cand_soluong =
     [[83, 7889, 32, 108, 432, 7907, 110, 103], asc ''So luong'',
      [83, 7889, 32, 76, 432, 7907, 110, 103], asc ''SL'', asc ''SoLuong'']"

definition cand_dongia :: "pystr list" where
  "cand_dongia =
     [[272, 417, 110, 32, 103, 105, 225], asc ''Don gia'',
      [272, 417, 110, 32, 71, 105, 225], asc ''DonGia'']"

definition cand_thanhtien :: "pystr list" where
  "cand_thanhtien =
     [[84, 104, 224, 110, 104, 32, 116, 105, 7873, 110], asc ''Thanh tien'',
      [84, 104, 224, 110, 104, 32, 84, 105, 7873, 110], asc ''ThanhTien'']"

definition headers :: "pystr list" where
  "headers =
     [[84, 234, 110, 32, 104, 224, 110, 103], [83, 7889, 32, 108, 432, 7907, 110, 103],
      [272, 417, 110, 32, 103, 105, 225], [84, 104, 224, 110, 104, 32, 116, 105, 7873, 110]]"

definition empty_note :: pystr where
  "empty_note =
     [75, 104, 244, 110, 103, 32, 99, 243, 32, 104, 224, 110, 103, 32, 104, 111, 225, 46]"

text \<open>
  The derivation of the line total: when no total column was found and both the
  quantity and the price column were, three working columns are added and the total is
  read from the last. The result is the working frame and the label of the total. On the
  cells of the model the coercion and the product do not raise, so the \<open>except\<close> of the
  source is not taken.
\<close>

definition col_SoluongNum :: pyobj where
  "col_SoluongNum = PStr (asc ''_SoluongNum'')"

definition col_DongiaNum :: pyobj where
  "col_DongiaNum = PStr (asc ''_DongiaNum'')"

definition col_ThanhTien :: pyobj where
  "col_ThanhTien = PStr (asc ''_ThanhTien'')"

definition derive_thanhtien ::
  "pylib \<Rightarrow> dataframe \<Rightarrow> pyobj \<Rightarrow> pyobj \<Rightarrow> pyobj \<Rightarrow> dataframe \<times> pyobj" where
  "derive_thanhtien L working soluong dongia thanhtien =
     (if thanhtien = PNone \<and> truthy soluong \<and> truthy dongia
      then
        let w1 = set_col col_SoluongNum
                   (\<lambda>r. PFloat (fillna0 (to_numeric L (r soluong)))) working;
            w2 = set_col col_DongiaNum
                   (\<lambda>r. PFloat (fillna0 (to_numeric L (r dongia)))) w1;
            w3 = set_col col_ThanhTien
                   (\<lambda>r. PFloat (fl_mul (float_of_cell (r col_SoluongNum))
                                       (float_of_cell (r col_DongiaNum)))) w2
        in (w3, col_ThanhTien)
      else (working, thanhtien))"

text \<open>\<open>r[col] if col in r else ""\<close>, for a row \<open>r\<close> of a frame with the labels \<open>cols\<close>.\<close>

definition cell_or_empty :: "pyobj list \<Rightarrow> (pyobj \<Rightarrow> pyobj) \<Rightarrow> pyobj \<Rightarrow> pyobj" where
  "cell_or_empty cols r col = (if col \<in> set cols then r col else PStr [])"

definition table_row ::
  "pylib \<Rightarrow> pyobj list \<Rightarrow> pyobj \<Rightarrow> pyobj \<Rightarrow> pyobj \<Rightarrow> pyobj \<Rightarrow> (pyobj \<Rightarrow> pyobj) \<Rightarrow> pystr list" where
  "table_row L cols ten soluong dongia thanhtien r =
     (let ten_val = cell_or_empty cols r ten;
          sl_val = cell_or_empty cols r soluong;
          dg_val = cell_or_empty cols r dongia;
          tt_val = cell_or_empty cols r thanhtien
      in [if isna ten_val then [] else py_str L ten_val,
          format_int L sl_val,
          format_currency L dg_val,
          format_currency L tt_val])"

definition build_goods_table_subdoc :: "pylib \<Rightarrow> pystr \<Rightarrow> dataframe option \<Rightarrow> subdoc" where
  "build_goods_table_subdoc L doc items_df =
     (let sd = new_subdoc doc
      in case items_df of
        None \<Rightarrow> add_block (Paragraph empty_note) sd
      | Some items \<Rightarrow>
         if df_empty items then add_block (Paragraph empty_note) sd
         else
           let ten = pick_col L items cand_ten;
               soluong = pick_col L items cand_soluong;
               dongia = pick_col L items cand_dongia;
               thanhtien0 = pick_col L items cand_thanhtien;
               (working, thanhtien) = derive_thanhtien L items soluong dongia thanhtien0
           in add_block
                (Table (asc ''Table Grid'')
                   (headers #
                    map (table_row L (df_columns working) ten soluong dongia thanhtien)
                      (df_rows working)))
                sd)"

section \<open>Rendering the templates of one customer\<close>

text \<open>The labels of the profile sheet and of the join, as the source writes them.\<close>

definition lbl_MaKH :: pyobj where
  "lbl_MaKH = PStr [77, 227, 32, 75, 72]"

definition lbl_HoTen :: pyobj where
  "lbl_HoTen = PStr [72, 7885, 32, 116, 234, 110]"

definition lbl_NgaySinh :: pyobj where
  "lbl_NgaySinh = PStr [78, 103, 224, 121, 32, 115, 105, 110, 104]"

definition lbl_DiaChi :: pyobj where
  "lbl_DiaChi = PStr [272, 7883, 97, 32, 99, 104, 7881]"

definition lbl_SoDienThoai :: pyobj where
  "lbl_SoDienThoai = PStr [83, 7889, 32, 273, 105, 7879, 110, 32, 116, 104, 111, 7841, 105]"

text \<open>A row of the profile sheet as \<open>iterrows\<close> gives it: the labels and the cells.\<close>

type_synonym series = "pyobj list \<times> (pyobj \<Rightarrow> pyobj)"

definition series_get :: "series \<Rightarrow> pyobj \<Rightarrow> pyobj \<Rightarrow> pyobj" where
  "series_get row col dflt = (if col \<in> set (fst row) then snd row col else dflt)"

definition val :: "series \<Rightarrow> pyobj \<Rightarrow> pyobj" where
  "val row col = (if col \<notin> set (fst row) \<or> isna (snd row col) then PStr [] else snd row col)"

record render_context =
  TenKH :: pyobj
  NgaySinh :: pystr
  DiaChi :: pyobj
  SoDienThoai :: pyobj
  MaKH :: pyobj
  BangHangHoa :: subdoc

definition build_context_for_customer ::
  "pylib \<Rightarrow> pystr \<Rightarrow> series \<Rightarrow> dataframe option \<Rightarrow> render_context" where
  "build_context_for_customer L doc customer_row items_df =
     \<lparr> TenKH = val customer_row lbl_HoTen,
       NgaySinh = format_date L (val customer_row lbl_NgaySinh) (asc ''%d/%m/%Y''),
       DiaChi = val customer_row lbl_DiaChi,
       SoDienThoai = val customer_row lbl_SoDienThoai,
       MaKH = val customer_row lbl_MaKH,
       BangHangHoa = build_goods_table_subdoc L doc items_df \<rparr>"

text \<open>
  A template file: the path given to \<open>DocxTemplate\<close> and its \<open>stem\<close>. A rendered
  document: the template it was made from, the scalar values and the body of the embedded
  sub-document. The file system: the directories made and the files saved, in order.
\<close>

record template =
  tpl_path :: pystr
  tpl_stem :: pystr

record document =
  d_template :: pystr
  d_TenKH :: pyobj
  d_NgaySinh :: pystr
  d_DiaChi :: pyobj
  d_SoDienThoai :: pyobj
  d_MaKH :: pyobj
  d_table :: "block list"

definition doc_render :: "pystr \<Rightarrow> render_context \<Rightarrow> document" where
  "doc_render doc ctx =
     \<lparr> d_template = doc, d_TenKH = TenKH ctx, d_NgaySinh = NgaySinh ctx, d_DiaChi = DiaChi ctx,
       d_SoDienThoai = SoDienThoai ctx, d_MaKH = MaKH ctx, d_table = sd_body (BangHangHoa ctx) \<rparr>"

type_synonym path = "pystr list"

record fs =
  fs_dirs :: "path list"
  fs_files :: "(path \<times> document) list"

definition path_join :: "path \<Rightarrow> pystr \<Rightarrow> path" where
  "path_join p seg = (if seg = [] \<or> seg = [46] then p else p @ [seg])"

definition mkdir :: "path \<Rightarrow> fs \<Rightarrow> fs" where
  "mkdir p s = (if p \<in> set (fs_dirs s) then s else s \<lparr> fs_dirs := fs_dirs s @ [p] \<rparr>)"

definition save :: "path \<Rightarrow> document \<Rightarrow> fs \<Rightarrow> fs" where
  "save p d s = s \<lparr> fs_files := fs_files s @ [(p, d)] \<rparr>"

text \<open>\<open>.strip("_")\<close>.\<close>

definition strip_chars :: "(cp \<Rightarrow> bool) \<Rightarrow> pystr \<Rightarrow> pystr" where
  "strip_chars P s = rev (dropWhile P (rev (dropWhile P s)))"

definition folder_name :: "pylib \<Rightarrow> pyobj \<Rightarrow> pyobj \<Rightarrow> pystr" where
  "folder_name L customer_id customer_name =
     strip_chars (\<lambda>c. c = 95)
       (safe_filename L (PStr (py_str L customer_id)) @ 95 #
        safe_filename L (PStr (py_str L customer_name)))"

definition out_name :: "pylib \<Rightarrow> template \<Rightarrow> pyobj \<Rightarrow> pystr" where
  "out_name L tpl customer_id =
     tpl_stem tpl @ asc ''__'' @ safe_filename L (PStr (py_str L customer_id)) @ asc ''.docx''"

text \<open>The rows of the goods sheet whose customer id (\<open>lbl_MaKH\<close>), as a string, is the customer's.\<close>

definition filter_items :: "pylib \<Rightarrow> dataframe option \<Rightarrow> pyobj \<Rightarrow> dataframe" where
  "filter_items L items_all customer_id =
     (case items_all of
        None \<Rightarrow> \<lparr> df_columns = [], df_rows = [] \<rparr>
      | Some al \<Rightarrow>
         if lbl_MaKH \<in> set (df_columns al)
         then al \<lparr> df_rows := filter (\<lambda>r. py_str L (r lbl_MaKH) = py_str L customer_id) (df_rows al) \<rparr>
         else \<lparr> df_columns = [], df_rows = [] \<rparr>)"

fun render_loop ::
  "pylib \<Rightarrow> path \<Rightarrow> series \<Rightarrow> pyobj \<Rightarrow> dataframe \<Rightarrow> template list \<Rightarrow> fs \<Rightarrow> fs" where
  "render_loop L dir customer_row customer_id items_df [] s = s"
| "render_loop L dir customer_row customer_id items_df (tpl # tpls) s =
     (let doc = tpl_path tpl;
          ctx = build_context_for_customer L doc customer_row (Some items_df);
          rendered = doc_render doc ctx;
          out_path = path_join dir (out_name L tpl customer_id)
      in render_loop L dir customer_row customer_id items_df tpls (save out_path rendered s))"

definition render_templates_for_customer ::
  "pylib \<Rightarrow> template list \<Rightarrow> path \<Rightarrow> series \<Rightarrow> dataframe option \<Rightarrow> fs \<Rightarrow> fs" where
  "render_templates_for_customer L templates output_root customer_row items_all s =
     (let customer_id = series_get customer_row lbl_MaKH (PStr []);
          customer_name = series_get customer_row lbl_HoTen (PStr []);
          customer_out_dir = path_join output_root (folder_name L customer_id customer_name);
          s1 = mkdir customer_out_dir s;
          items_df = filter_items L items_all customer_id
      in render_loop L customer_out_dir customer_row customer_id items_df templates s1)"

section \<open>Reading the workbook and the driver\<close>

datatype error =
  NoExcelFile | NoTemplateDir | NoTemplates | SheetsNotFound "pystr list" | MissingColumn pyobj

fun starts_with :: "pystr \<Rightarrow> pystr \<Rightarrow> bool" where
  "starts_with [] s = True"
| "starts_with (a # as) [] = False"
| "starts_with (a # as) (c # cs) = (a = c \<and> starts_with as cs)"

text \<open>\<open>sub in s\<close> on strings.\<close>

fun contains :: "pystr \<Rightarrow> pystr \<Rightarrow> bool" where
  "contains sub [] = (sub = [])"
| "contains sub (c # cs) = (starts_with sub (c # cs) \<or> contains sub cs)"

definition in_key :: "pystr \<Rightarrow> pyobj \<Rightarrow> bool" where
  "in_key sub key = (case key of PStr k \<Rightarrow> contains sub k | _ \<Rightarrow> False)"

text \<open>One turn of the loop over the sheet names: the three \<open>if\<close>s, on the pair
  \<open>(wanted["hoso"], wanted["hanghoa"])\<close>.\<close>

definition sheet_step :: "pylib \<Rightarrow> pystr \<Rightarrow> pystr option \<times> pystr option \<Rightarrow> pystr option \<times> pystr option" where
  "sheet_step L s w =
     (let key = normalize_key L (PStr s);
          h1 = (if in_key (asc ''hoso'') key \<and> fst w = None then Some s else fst w);
          g1 = (if (in_key (asc ''hanghoa'') key \<or> in_key (asc ''hanghoa'') key
                    \<or> in_key [104, 97, 110, 103, 104, 111, 225] key
                    \<or> in_key [104, 97, 110, 103, 104, 111, 224] key) \<and> snd w = None
                then Some s else snd w);
          g2 = (if in_key (asc ''hang'') key \<and> in_key (asc ''hoa'') key \<and> g1 = None
                then Some s else g1)
      in (h1, g2))"

fun sheets_loop :: "pylib \<Rightarrow> pystr list \<Rightarrow> pystr option \<times> pystr option \<Rightarrow> pystr option \<times> pystr option" where
  "sheets_loop L [] w = w"
| "sheets_loop L (s # ss) w = sheets_loop L ss (sheet_step L s w)"

definition find_sheet_names :: "pylib \<Rightarrow> pystr list \<Rightarrow> error + pystr \<times> pystr" where
  "find_sheet_names L sheet_names =
     (case sheets_loop L sheet_names (None, None) of
        (Some h, Some g) \<Rightarrow> if h = [] \<or> g = [] then Inl (SheetsNotFound sheet_names) else Inr (h, g)
      | _ \<Rightarrow> Inl (SheetsNotFound sheet_names))"

text \<open>The workbook: its sheet names and what \<open>read_excel\<close> gives for a sheet.\<close>

record workbook =
  sheet_names :: "pystr list"
  read_sheet :: "pystr \<Rightarrow> dataframe"

definition strip_label :: "pylib \<Rightarrow> pyobj \<Rightarrow> pyobj" where
  "strip_label L c = (case c of PStr s \<Rightarrow> PStr (strip_chars (isspace L) s) | _ \<Rightarrow> c)"

definition strip_columns :: "pylib \<Rightarrow> dataframe \<Rightarrow> dataframe" where
  "strip_columns L df =
     \<lparr> df_columns = map (strip_label L) (df_columns df),
       df_rows = map (\<lambda>r c'. case find (\<lambda>c. strip_label L c = c') (df_columns df) of
                              Some c \<Rightarrow> r c | None \<Rightarrow> r c') (df_rows df) \<rparr>"

definition read_excel_data :: "pylib \<Rightarrow> workbook \<Rightarrow> error + dataframe \<times> dataframe" where
  "read_excel_data L xls =
     (case find_sheet_names L (sheet_names xls) of
        Inl e \<Rightarrow> Inl e
      | Inr (hoso, hanghoa) \<Rightarrow>
         Inr (strip_columns L (read_sheet xls hoso), strip_columns L (read_sheet xls hanghoa)))"

record env =
  xlsx_exists :: bool
  template_dir_exists :: bool
  templates_found :: "template list"
  xlsx :: workbook
  output_dir :: path

fun check_required :: "dataframe \<Rightarrow> pyobj list \<Rightarrow> error option" where
  "check_required df [] = None"
| "check_required df (col # cols) =
     (if col \<notin> set (df_columns df) then Some (MissingColumn col) else check_required df cols)"

definition main :: "pylib \<Rightarrow> env \<Rightarrow> fs \<Rightarrow> (error + unit) \<times> fs" where
  "main L e s =
     (if \<not> xlsx_exists e then (Inl NoExcelFile, s)
      else if \<not> template_dir_exists e then (Inl NoTemplateDir, s)
      else
        let s1 = mkdir (output_dir e) s;
            templates = templates_found e
        in if length templates = 0 then (Inl NoTemplates, s1)
           else case read_excel_data L (xlsx e) of
             Inl err \<Rightarrow> (Inl err, s1)
           | Inr (df_hoso, df_hanghoa) \<Rightarrow>
              (case check_required df_hoso [lbl_MaKH, lbl_HoTen] of
                 Some err \<Rightarrow> (Inl err, s1)
               | None \<Rightarrow>
                  (Inr (),
                   fold (\<lambda>row. render_templates_for_customer L templates (output_dir e)
                                 (df_columns df_hoso, row) (Some df_hanghoa))
                     (df_rows df_hoso) s1)))"

section \<open>An excerpt of the library\<close>

text \<open>
  The rows of the Unicode Character Database (version 14) for printable ASCII, for the
  letters of the source's literals and of the examples, with their other case and the
  marks they decompose into, and for the Greek letters alpha and sigma. \<open>excerpt\<close> has
  these rows (the ASCII letters and digits by their ranges; the rows of the lists start
  at U+00C0, those of the combining classes at U+0300); a code point outside them is
  given no decomposition and no case there.
\<close>

definition ucd_nfd_rows :: "(cp \<times> cp list) list" where
  "ucd_nfd_rows =
    [(192, [65, 768]), (193, [65, 769]), (195, [65, 771]), (200, [69, 768]),
     (202, [69, 770]), (204, [73, 768]), (205, [73, 769]), (210, [79, 768]),
     (211, [79, 769]), (212, [79, 770]), (217, [85, 768]), (218, [85, 769]),
     (221, [89, 769]), (224, [97, 768]), (225, [97, 769]), (227, [97, 771]),
     (232, [101, 768]), (234, [101, 770]), (236, [105, 768]), (237, [105, 769]),
     (242, [111, 768]), (243, [111, 769]), (244, [111, 770]), (249, [117, 768]),
     (250, [117, 769]), (253, [121, 769]), (258, [65, 774]), (259, [97, 774]),
     (416, [79, 795]), (417, [111, 795]), (431, [85, 795]), (432, [117, 795]),
     (7840, [65, 803]), (7841, [97, 803]), (7842, [65, 777]), (7843, [97, 777]),
     (7844, [65, 770, 769]), (7845, [97, 770, 769]), (7846, [65, 770, 768]), (7847, [97, 770, 768]),
     (7848, [65, 770, 777]), (7849, [97, 770, 777]), (7850, [65, 770, 771]), (7851, [97, 770, 771]),
     (7852, [65, 803, 770]), (7853, [97, 803, 770]), (7854, [65, 774, 769]), (7855, [97, 774, 769]),
     (7862, [65, 803, 774]), (7863, [97, 803, 774]), (7870, [69, 770, 769]), (7871, [101, 770, 769]),
     (7872, [69, 770, 768]), (7873, [101, 770, 768]), (7874, [69, 770, 777]), (7875, [101, 770, 777]),
     (7876, [69, 770, 771]), (7877, [101, 770, 771]), (7878, [69, 803, 770]), (7879, [101, 803, 770]),
     (7880, [73, 777]), (7881, [105, 777]), (7882, [73, 803]), (7883, [105, 803]),
     (7884, [79, 803]), (7885, [111, 803]), (7888, [79, 770, 769]), (7889, [111, 770, 769]),
     (7890, [79, 770, 768]), (7891, [111, 770, 768]), (7892, [79, 770, 777]), (7893, [111, 770, 777]),
     (7894, [79, 770, 771]), (7895, [111, 770, 771]), (7896, [79, 803, 770]), (7897, [111, 803, 770]),
     (7898, [79, 795, 769]), (7899, [111, 795, 769]), (7900, [79, 795, 768]), (7901, [111, 795, 768]),
     (7906, [79, 795, 803]), (7907, [111, 795, 803]), (7908, [85, 803]), (7909, [117, 803]),
     (7910, [85, 777]), (7911, [117, 777]), (7912, [85, 795, 769]), (7913, [117, 795, 769]),
     (7914, [85, 795, 768]), (7915, [117, 795, 768]), (7916, [85, 795, 777]), (7917, [117, 795, 777]),
     (7918, [85, 795, 771]), (7919, [117, 795, 771])]"

definition ucd_ccc_rows :: "(cp \<times> nat) list" where
  "ucd_ccc_rows =
    [(768, 230), (769, 230), (770, 230), (771, 230), (774, 230), (777, 230),
     (795, 216), (803, 220)]"

definition ucd_lower_rows :: "(cp \<times> cp list) list" where
  "ucd_lower_rows =
    [(192, [224]), (193, [225]), (195, [227]), (200, [232]), (202, [234]),
     (204, [236]), (205, [237]), (210, [242]), (211, [243]), (212, [244]),
     (217, [249]), (218, [250]), (221, [253]), (258, [259]), (272, [273]),
     (416, [417]), (431, [432]), (913, [945]), (931, [963]), (7840, [7841]),
     (7842, [7843]), (7844, [7845]), (7846, [7847]), (7848, [7849]), (7850, [7851]),
     (7852, [7853]), (7854, [7855]), (7862, [7863]), (7870, [7871]), (7872, [7873]),
     (7874, [7875]), (7876, [7877]), (7878, [7879]), (7880, [7881]), (7882, [7883]),
     (7884, [7885]), (7888, [7889]), (7890, [7891]), (7892, [7893]), (7894, [7895]),
     (7896, [7897]), (7898, [7899]), (7900, [7901]), (7906, [7907]), (7908, [7909]),
     (7910, [7911]), (7912, [7913]), (7914, [7915]), (7916, [7917]), (7918, [7919])]"

definition ucd_cased :: "cp list" where
  "ucd_cased =
    [192, 193, 195, 200, 202, 204, 205, 210, 211, 212, 217, 218, 221, 224,
     225, 227, 232, 234, 236, 237, 242, 243, 244, 249, 250, 253, 258, 259,
     272, 273, 416, 417, 431, 432, 913, 931, 945, 962, 963, 7840, 7841, 7842,
     7843, 7844, 7845, 7846, 7847, 7848, 7849, 7850, 7851, 7852, 7853, 7854, 7855, 7862,
     7863, 7870, 7871, 7872, 7873, 7874, 7875, 7876, 7877, 7878, 7879, 7880, 7881, 7882,
     7883, 7884, 7885, 7888, 7889, 7890, 7891, 7892, 7893, 7894, 7895, 7896, 7897, 7898,
     7899, 7900, 7901, 7906, 7907, 7908, 7909, 7910, 7911, 7912, 7913, 7914, 7915, 7916,
     7917, 7918, 7919]"

definition ucd_case_ignorable :: "cp list" where
  "ucd_case_ignorable =
    [39, 46, 58, 94, 96, 768, 769, 770, 771, 774, 777, 795, 803]"

definition ucd_alnum :: "cp list" where
  "ucd_alnum =
    [192, 193, 195, 200, 202, 204, 205, 210, 211, 212, 217, 218, 221, 224,
     225, 227, 232, 234, 236, 237, 242, 243, 244, 249, 250, 253, 258, 259,
     272, 273, 416, 417, 431, 432, 913, 931, 945, 962, 963, 7840, 7841, 7842,
     7843, 7844, 7845, 7846, 7847, 7848, 7849, 7850, 7851, 7852, 7853, 7854, 7855, 7862,
     7863, 7870, 7871, 7872, 7873, 7874, 7875, 7876, 7877, 7878, 7879, 7880, 7881, 7882,
     7883, 7884, 7885, 7888, 7889, 7890, 7891, 7892, 7893, 7894, 7895, 7896, 7897, 7898,
     7899, 7900, 7901, 7906, 7907, 7908, 7909, 7910, 7911, 7912, 7913, 7914, 7915, 7916,
     7917, 7918, 7919]"

text \<open>
  The sample parser reads plain decimal literals only (an optional \<open>-\<close>, digits, an
  optional point and digits), where \<open>float()\<close> and \<open>to_numeric\<close> agree; the sample
  printer of floats is right on the integral doubles below \<open>10 ^ 16\<close>.
\<close>

definition is_digit :: "cp \<Rightarrow> bool" where
  "is_digit c = (48 \<le> c \<and> c \<le> 57)"

definition ascii_upper :: "cp \<Rightarrow> bool" where
  "ascii_upper c = (65 \<le> c \<and> c \<le> 90)"

definition ascii_lower :: "cp \<Rightarrow> bool" where
  "ascii_lower c = (97 \<le> c \<and> c \<le> 122)"

definition digits_value :: "pystr \<Rightarrow> nat" where
  "digits_value ds = foldl (\<lambda>a c. 10 * a + (c - 48)) 0 ds"

definition plain_unsigned :: "pystr \<Rightarrow> rat option" where
  "plain_unsigned s =
     (let ip = takeWhile is_digit s; r = dropWhile is_digit s
      in if ip = [] then None
         else case r of
           [] \<Rightarrow> Some (of_nat (digits_value ip))
         | c # fp \<Rightarrow>
            if c = 46 \<and> fp \<noteq> [] \<and> list_all is_digit fp
            then Some (of_nat (digits_value ip) + of_nat (digits_value fp) / 10 ^ length fp)
            else None)"

definition plain_decimal :: "pystr \<Rightarrow> pyfloat option" where
  "plain_decimal s =
     (case s of
        [] \<Rightarrow> None
      | c # r \<Rightarrow>
         if c = 45
         then (case plain_unsigned r of
                 None \<Rightarrow> None
               | Some q \<Rightarrow> Some (if q = 0 then NegZero else to_double (- q)))
         else map_option to_double (plain_unsigned s))"

definition excerpt :: pylib where
  "excerpt =
     \<lparr> nfd_char = (\<lambda>c. if c < 192 then [c]
                        else case map_of ucd_nfd_rows c of Some ds \<Rightarrow> ds | None \<Rightarrow> [c]),
       combining = (\<lambda>c. if c < 768 then 0
                         else case map_of ucd_ccc_rows c of Some k \<Rightarrow> k | None \<Rightarrow> 0),
       lower_full = (\<lambda>c. if ascii_upper c then [c + 32]
                          else if c < 192 then [c]
                          else case map_of ucd_lower_rows c of Some ds \<Rightarrow> ds | None \<Rightarrow> [c]),
       cased = (\<lambda>c. ascii_upper c \<or> ascii_lower c \<or> (192 \<le> c \<and> c \<in> set ucd_cased)),
       case_ignorable = (\<lambda>c. c \<in> set ucd_case_ignorable),
       isalnum = (\<lambda>c. ascii_upper c \<or> ascii_lower c \<or> is_digit c
                        \<or> (192 \<le> c \<and> c \<in> set ucd_alnum)),
       isspace = (\<lambda>c. c \<in> set [9, 10, 11, 12, 13, 28, 29, 30, 31, 32, 133, 160]),
       float_of_str = plain_decimal,
       numeric_of_str = plain_decimal,
       float_repr = (\<lambda>q. str_of_int \<lfloor>q\<rfloor> @ asc ''.0''),
       time_str = (\<lambda>t. asc ''2000-01-01 00:00:00''),
       strftime = (\<lambda>t fmt. asc ''01/01/2000''),
       to_datetime = (\<lambda>v. Some PNaT) \<rparr>"

section \<open>Notions used in the statements\<close>

text \<open>The string columns of a frame whose key is \<open>k\<close>, in the order of the columns.\<close>

fun is_str :: "pyobj \<Rightarrow> bool" where
  "is_str (PStr s) = True"
| "is_str v = False"

definition matching :: "pylib \<Rightarrow> pyobj list \<Rightarrow> pyobj \<Rightarrow> pyobj list" where
  "matching L cols k = filter (\<lambda>c. is_str c \<and> normalize_key L c = k) cols"

text \<open>The characters that \<open>safe_filename\<close> leaves as they are.\<close>

definition allowed :: "pylib \<Rightarrow> cp \<Rightarrow> bool" where
  "allowed L ch = (isalnum L ch \<or> ch \<in> {45, 95, 46, 40, 41, 32, 91, 93})"

text \<open>
  The renderer as the specification words it (section 4.5, steps 4 and 5): the item table
  fragment is built once for the customer, by a document \<open>d0\<close> of any template, and
  every template's context is given that one fragment.
\<close>

definition render_build_once ::
  "pylib \<Rightarrow> pystr \<Rightarrow> template list \<Rightarrow> path \<Rightarrow> series \<Rightarrow> dataframe option \<Rightarrow> fs \<Rightarrow> fs" where
  "render_build_once L d0 templates output_root customer_row items_all s =
     (let customer_id = series_get customer_row lbl_MaKH (PStr []);
          customer_name = series_get customer_row lbl_HoTen (PStr []);
          customer_out_dir = path_join output_root (folder_name L customer_id customer_name);
          s1 = mkdir customer_out_dir s;
          items_df = filter_items L items_all customer_id;
          fragment = sd_body (build_goods_table_subdoc L d0 (Some items_df))
      in fold (\<lambda>tpl. save (path_join customer_out_dir (out_name L tpl customer_id))
                 \<lparr> d_template = tpl_path tpl,
                   d_TenKH = val customer_row lbl_HoTen,
                   d_NgaySinh = format_date L (val customer_row lbl_NgaySinh) (asc ''%d/%m/%Y''),
                   d_DiaChi = val customer_row lbl_DiaChi,
                   d_SoDienThoai = val customer_row lbl_SoDienThoai,
                   d_MaKH = val customer_row lbl_MaKH,
                   d_table = fragment \<rparr>)
           templates s1)"

text \<open>The two categories of sheets, by the conditions of \<open>find_sheet_names\<close>.\<close>

definition is_profile :: "pylib \<Rightarrow> pystr \<Rightarrow> bool" where
  "is_profile L s = in_key (asc ''hoso'') (normalize_key L (PStr s))"

definition is_goods :: "pylib \<Rightarrow> pystr \<Rightarrow> bool" where
  "is_goods L s =
     (let key = normalize_key L (PStr s)
      in in_key (asc ''hanghoa'') key
         \<or> in_key [104, 97, 110, 103, 104, 111, 225] key
         \<or> in_key [104, 97, 110, 103, 104, 111, 224] key
         \<or> (in_key (asc ''hang'') key \<and> in_key (asc ''hoa'') key))"

text \<open>The integer format of \<open>format_int\<close>: the groups of three digits, a period between them.\<close>

definition dotted :: "int \<Rightarrow> pystr" where
  "dotted n = replace_char 44 46 (fmt_int_comma n)"

text \<open>
  The number a value parses to: the value of \<open>float(value)\<close> when that is a finite float,
  nothing when \<open>float\<close> raises or gives an infinity or \<open>nan\<close>.
\<close>

definition parsed_number :: "pylib \<Rightarrow> pyobj \<Rightarrow> rat option" where
  "parsed_number L v =
     (case py_float L v of
        Inr (Fin q) \<Rightarrow> Some q
      | Inr NegZero \<Rightarrow> Some 0
      | _ \<Rightarrow> None)"




text \<open>
  The two functions on strings: \<open>strip_accents\<close> and \<open>normalize_key\<close> of a string are the
  strings \<open>strip_str\<close> and \<open>key_str\<close>.
\<close>

definition strip_str :: "pylib \<Rightarrow> pystr \<Rightarrow> pystr" where
  "strip_str L s = filter (\<lambda>c. combining L c = 0) (nfd L s)"

definition key_str :: "pylib \<Rightarrow> pystr \<Rightarrow> pystr" where
  "key_str L s = filter (\<lambda>c. c \<noteq> 32) (py_lower L (strip_str L s))"

text \<open>
  Facts of the Unicode Character Database that the statements about every string rest
  on, each about single code points: a code point is a \<open>base_char\<close> when it has no
  decomposition and combining class zero, and a \<open>key_char\<close> when, moreover, it is its own
  lowercase and not the capital sigma. Decompositions are full; the lowercase of a base
  code point consists of key characters, and so do the two small sigmas; the space is
  a base character and its own lowercase; the capital sigma occurs in no decomposition of another
  code point and in no lowercase mapping; and the key of the lowercase of a code point
  other than the capital sigma is the key of the code point.
\<close>

definition base_char :: "pylib \<Rightarrow> cp \<Rightarrow> bool" where
  "base_char L d = (nfd_char L d = [d] \<and> combining L d = 0)"

definition key_char :: "pylib \<Rightarrow> cp \<Rightarrow> bool" where
  "key_char L d = (base_char L d \<and> lower_full L d = [d] \<and> d \<noteq> 931)"

definition ucd_facts :: "pylib \<Rightarrow> bool" where
  "ucd_facts L =
     ((\<forall>c. \<forall>d\<in>set (nfd_char L c). nfd_char L d = [d])
      \<and> (\<forall>c. base_char L c \<longrightarrow> (\<forall>d\<in>set (lower_full L c). key_char L d))
      \<and> key_char L 963 \<and> key_char L 962
      \<and> base_char L 32 \<and> lower_full L 32 = [32]
      \<and> (\<forall>c. c \<noteq> 931 \<longrightarrow> 931 \<notin> set (nfd_char L c))
      \<and> (\<forall>c. 931 \<notin> set (lower_full L c))
      \<and> (\<forall>c. c \<noteq> 931 \<longrightarrow> key_str L (lower_full L c) = key_str L [c]))"

section \<open>Data of the examples\<close>

text \<open>
  Data of the examples: an empty file system, one template, a workbook with no sheet of
  either category, a workbook whose headers are spelled without accents, and one whose
  headers are the literal labels, one of them with spaces around it.
\<close>

definition fs0 :: fs where
  "fs0 = \<lparr> fs_dirs = [], fs_files = [] \<rparr>"

definition one_template :: "template list" where
  "one_template = [\<lparr> tpl_path = asc ''templates/T1.docx'', tpl_stem = asc ''T1'' \<rparr>]"

definition book_other_sheets :: env where
  "book_other_sheets =
     \<lparr> xlsx_exists = True, template_dir_exists = True, templates_found = one_template,
       xlsx = \<lparr> sheet_names = [asc ''Sheet1'', asc ''Data''],
                read_sheet = (\<lambda>n. \<lparr> df_columns = [], df_rows = [] \<rparr>) \<rparr>,
       output_dir = [asc ''output''] \<rparr>"




definition lbl_DonGia :: pyobj where
  "lbl_DonGia = PStr [272, 417, 110, 32, 103, 105, 225]"




section \<open>The choice of a column\<close>

lemma matching_Cons:
  "matching L (c # cols) k =
     (if is_str c \<and> normalize_key L c = k then c # matching L cols k else matching L cols k)"
  by (simp add: matching_def)

lemma fold_available:
  "fold (\<lambda>c m. case c of PStr _ \<Rightarrow> m(normalize_key L c \<mapsto> c) | _ \<Rightarrow> m) cols m0 k =
     (if matching L cols k = [] then m0 k else Some (last (matching L cols k)))"
proof (induction cols arbitrary: m0)
  case Nil
  show ?case by (simp add: matching_def)
next
  case (Cons c cols)
  show ?case
  proof (cases "is_str c")
    case True
    then obtain s where c: "c = PStr s" by (cases c) simp_all
    show ?thesis
      unfolding c fold_Cons comp_apply pyobj.case Cons.IH matching_Cons
      by (simp)
  next
    case False
    then have "(case c of PStr x \<Rightarrow> m0(normalize_key L c \<mapsto> c) | _ \<Rightarrow> m0) = m0"
      by (cases c) simp_all
    then show ?thesis
      using False unfolding fold_Cons comp_apply Cons.IH matching_Cons by simp
  qed
qed

lemma available_eq:
  "available L cols k = (if matching L cols k = [] then None else Some (last (matching L cols k)))"
  by (simp add: available_def fold_available)

lemma pick_loop_eq:
  "pick_loop L (available L cols) cands =
     (case find (\<lambda>cand. matching L cols (normalize_key L (PStr cand)) \<noteq> []) cands of
        None \<Rightarrow> PNone
      | Some cand \<Rightarrow> last (matching L cols (normalize_key L (PStr cand))))"
  by (induction cands) (simp_all add: available_eq Let_def)


lemma matching_last:
  assumes "matching L cols k \<noteq> []"
  shows "is_str (last (matching L cols k))"
proof -
  have "last (matching L cols k) \<in> set (matching L cols k)" using assms by simp
  then show ?thesis by (simp add: matching_def)
qed

lemma pick_col_eq:
  "pick_col L df cands =
     (case find (\<lambda>cand. matching L (df_columns df) (normalize_key L (PStr cand)) \<noteq> []) cands of
        None \<Rightarrow> PNone
      | Some cand \<Rightarrow> last (matching L (df_columns df) (normalize_key L (PStr cand))))"
  by (simp add: pick_col_def pick_loop_eq)

lemma pick_col_None_iff:
  "(pick_col L df cands = PNone) =
     (\<forall>cand\<in>set cands. matching L (df_columns df) (normalize_key L (PStr cand)) = [])"
proof -
  let ?hit = "\<lambda>cand. matching L (df_columns df) (normalize_key L (PStr cand)) \<noteq> []"
  show ?thesis
  proof (cases "find ?hit cands")
    case None
    have "pick_col L df cands = PNone" using pick_col_eq [of L df cands] by (simp add: None)
    moreover have "\<forall>cand\<in>set cands. \<not> ?hit cand"
      using None by (simp add: find_None_iff)
    ultimately show ?thesis by simp
  next
    case (Some cand)
    then have hit: "?hit cand" and mem: "cand \<in> set cands"
      by (auto simp: find_Some_iff)
    have "is_str (last (matching L (df_columns df) (normalize_key L (PStr cand))))"
      using hit by (rule matching_last)
    then have "pick_col L df cands \<noteq> PNone"
      using pick_col_eq [of L df cands] Some by (cases "pick_col L df cands") auto
    then show ?thesis using hit mem by blast
  qed
qed

text \<open>
  Claim C4. For every list of columns and every list of candidates in priority order,
  \<open>pick_col\<close> returns the column matched by the earliest candidate whose key is the key
  of some string column (the last such column, when several share the key), whatever the
  position of that column; it returns \<open>None\<close> exactly when no candidate's key is the key
  of a string column. With the columns \<open>SoLuong\<close> and the accented \<open>Ten hang\<close>
  (U+00EA, U+00E0) and the candidates accented \<open>Ten hang\<close>, plain \<open>Ten hang\<close>, the
  result is the accented column; with the columns \<open>SL\<close> and the accented \<open>So luong\<close>
  and the quantity candidates of the source, the result is the second column, matched by
  the first candidate.
\<close>

theorem pick_col_earliest_candidate:
  "pick_col L df cands =
     (case find (\<lambda>cand. matching L (df_columns df) (normalize_key L (PStr cand)) \<noteq> []) cands of
        None \<Rightarrow> PNone
      | Some cand \<Rightarrow> last (matching L (df_columns df) (normalize_key L (PStr cand))))
   \<and> ((pick_col L df cands = PNone) =
        (\<forall>cand\<in>set cands. matching L (df_columns df) (normalize_key L (PStr cand)) = []))
   \<and> pick_col excerpt
        \<lparr> df_columns = [PStr (asc ''SoLuong''), PStr [84, 234, 110, 32, 104, 224, 110, 103]],
          df_rows = [] \<rparr>
        [[84, 234, 110, 32, 104, 224, 110, 103], asc ''Ten hang'']
       = PStr [84, 234, 110, 32, 104, 224, 110, 103]
   \<and> pick_col excerpt
        \<lparr> df_columns = [PStr (asc ''SL''), PStr [83, 7889, 32, 108, 432, 7907, 110, 103]],
          df_rows = [] \<rparr>
        cand_soluong
       = PStr [83, 7889, 32, 108, 432, 7907, 110, 103]"
proof -
  have eq: "pick_col L df cands =
     (case find (\<lambda>cand. matching L (df_columns df) (normalize_key L (PStr cand)) \<noteq> []) cands of
        None \<Rightarrow> PNone
      | Some cand \<Rightarrow> last (matching L (df_columns df) (normalize_key L (PStr cand))))"
    by (rule pick_col_eq)
  have none: "(pick_col L df cands = PNone) =
     (\<forall>cand\<in>set cands. matching L (df_columns df) (normalize_key L (PStr cand)) = [])"
    by (rule pick_col_None_iff)
  have ex1: "pick_col excerpt
        \<lparr> df_columns = [PStr (asc ''SoLuong''), PStr [84, 234, 110, 32, 104, 224, 110, 103]],
          df_rows = [] \<rparr>
        [[84, 234, 110, 32, 104, 224, 110, 103], asc ''Ten hang'']
       = PStr [84, 234, 110, 32, 104, 224, 110, 103]"
    by code_simp
  have ex2: "pick_col excerpt
        \<lparr> df_columns = [PStr (asc ''SL''), PStr [83, 7889, 32, 108, 432, 7907, 110, 103]],
          df_rows = [] \<rparr>
        cand_soluong
       = PStr [83, 7889, 32, 108, 432, 7907, 110, 103]"
    by code_simp
  show ?thesis using eq none ex1 ex2 by simp
qed

theorem pick_col_earliest_candidate_witness:
  "pick_col excerpt \<lparr> df_columns = [PStr (asc ''DonGia''), PStr (asc ''ten hang'')], df_rows = [] \<rparr>
     cand_ten = PStr (asc ''ten hang'')
   \<and> pick_col excerpt \<lparr> df_columns = [PStr (asc ''DonGia''), PStr (asc ''ten hang'')], df_rows = [] \<rparr>
     cand_soluong = PNone"
proof -
  let ?df = "\<lparr> df_columns = [PStr (asc ''DonGia''), PStr (asc ''ten hang'')], df_rows = [] \<rparr>"
  have a: "(pick_col excerpt ?df cand_soluong = PNone) =
        (\<forall>cand\<in>set cand_soluong. matching excerpt (df_columns ?df) (normalize_key excerpt (PStr cand)) = [])"
    using pick_col_earliest_candidate [of excerpt ?df cand_soluong] by blast
  have b: "\<forall>cand\<in>set cand_soluong. matching excerpt (df_columns ?df) (normalize_key excerpt (PStr cand)) = []"
    by code_simp
  have c: "pick_col excerpt ?df cand_ten = PStr (asc ''ten hang'')"
    by code_simp
  show ?thesis using a b c by simp
qed

section \<open>File names, the render loop and the goods table\<close>

lemma keep_set: "set keep = {45, 95, 46, 40, 41, 32, 91, 93}"
  by (simp add: keep_def asc_def)

lemma safe_filename_str:
  "safe_filename L (PStr s) = map (\<lambda>ch. if allowed L ch then ch else 95) s"
  by (simp add: safe_filename_def allowed_def keep_set)

lemma allowed_underscore: "allowed L 95"
  by (simp add: allowed_def)

lemma safe_filename_allowed: "c \<in> set (safe_filename L (PStr s)) \<Longrightarrow> allowed L c"
  by (auto simp: safe_filename_str allowed_underscore)

lemma set_strip_chars: "set (strip_chars P s) \<subseteq> set s"
proof -
  have "set (rev (dropWhile P (rev (dropWhile P s)))) \<subseteq> set (dropWhile P s)"
    using set_dropWhileD [of _ P "rev (dropWhile P s)"] by auto
  also have "\<dots> \<subseteq> set s" using set_dropWhileD [of _ P s] by auto
  finally show ?thesis by (simp add: strip_chars_def)
qed

lemma folder_name_allowed: "c \<in> set (folder_name L i n) \<Longrightarrow> allowed L c"
proof -
  assume "c \<in> set (folder_name L i n)"
  then have "c \<in> set (safe_filename L (PStr (py_str L i)) @ 95 # safe_filename L (PStr (py_str L n)))"
    using set_strip_chars unfolding folder_name_def by blast
  then show "allowed L c"
    by (auto simp: allowed_underscore dest: safe_filename_allowed)
qed

lemma subdoc_body_any_doc:
  "sd_body (build_goods_table_subdoc L d1 items) = sd_body (build_goods_table_subdoc L d2 items)"
  by (simp add: build_goods_table_subdoc_def new_subdoc_def add_block_def Let_def
           split: option.split prod.split)

lemma render_loop_fold:
  "render_loop L dir row cid items tpls s =
     fold (\<lambda>tpl. save (path_join dir (out_name L tpl cid))
              (doc_render (tpl_path tpl)
                 (build_context_for_customer L (tpl_path tpl) row (Some items)))) tpls s"
  by (induction tpls arbitrary: s) (simp_all add: Let_def)

lemma fold_save_files:
  "fs_files (fold (\<lambda>tpl. save (p tpl) (d tpl)) tpls s) = fs_files s @ map (\<lambda>tpl. (p tpl, d tpl)) tpls"
  by (induction tpls arbitrary: s) (simp_all add: save_def)

lemma fold_save_dirs:
  "fs_dirs (fold (\<lambda>tpl. save (p tpl) (d tpl)) tpls s) = fs_dirs s"
  by (induction tpls arbitrary: s) (simp_all add: save_def)

lemma mkdir_files: "fs_files (mkdir p s) = fs_files s"
  by (simp add: mkdir_def)

text \<open>
  Claim C9. For the empty item set (absent, or a frame with no row) the builder returns a
  fragment holding exactly one block, the paragraph with the empty-state text, and no
  table.
\<close>

theorem empty_items_placeholder:
  "build_goods_table_subdoc L doc None = \<lparr> sd_doc = doc, sd_body = [Paragraph empty_note] \<rparr>
   \<and> (df_rows items = [] \<longrightarrow>
        build_goods_table_subdoc L doc (Some items)
          = \<lparr> sd_doc = doc, sd_body = [Paragraph empty_note] \<rparr>)
   \<and> empty_note \<noteq> []"
  by (simp add: build_goods_table_subdoc_def new_subdoc_def add_block_def df_empty_def
        empty_note_def)

theorem empty_items_placeholder_witness:
  "sd_body (build_goods_table_subdoc excerpt (asc ''T1.docx'')
      (Some \<lparr> df_columns = [lbl_MaKH, PStr (asc ''SL'')], df_rows = [] \<rparr>))
     = [Paragraph empty_note]"
  using empty_items_placeholder
    [of excerpt "asc ''T1.docx''" "\<lparr> df_columns = [lbl_MaKH, PStr (asc ''SL'')], df_rows = [] \<rparr>"]
  by simp

text \<open>
  Claim C8. \<open>safe_filename\<close> replaces each character that is neither alphanumeric nor one
  of hyphen, underscore, period, parentheses, space and square brackets by an underscore
  and leaves every other character as it is (\<open>A/B:C\<close> gives \<open>A_B_C\<close>, the accented name
  \<open>Nguyen Van A\<close> is kept with its spaces); the folder of a customer is made from the
  sanitized id and the sanitized name, every file saved for the customer lies in that
  folder, and its name is the template's stem, two underscores, the sanitized id and
  \<open>.docx\<close>.
\<close>

theorem safe_filename_sanitizes_paths:
  "length (safe_filename L (PStr str)) = length str
   \<and> (\<forall>i<length str. safe_filename L (PStr str) ! i = (if allowed L (str ! i) then str ! i else 95))
   \<and> safe_filename excerpt (PStr (asc ''A/B:C'')) = asc ''A_B_C''
   \<and> safe_filename excerpt (PStr [78, 103, 117, 121, 7877, 110, 32, 86, 259, 110, 32, 65])
       = [78, 103, 117, 121, 7877, 110, 32, 86, 259, 110, 32, 65]
   \<and> (let cid = series_get row lbl_MaKH (PStr []);
           cname = series_get row lbl_HoTen (PStr []);
           dir = path_join out_root (folder_name L cid cname);
           s' = render_templates_for_customer L tpls out_root row items_all s
       in folder_name L cid cname
            = strip_chars (\<lambda>c. c = 95)
                (safe_filename L (PStr (py_str L cid)) @ 95 # safe_filename L (PStr (py_str L cname)))
          \<and> (\<forall>c\<in>set (folder_name L cid cname). allowed L c)
          \<and> fs_dirs s' = fs_dirs (mkdir dir s)
          \<and> map fst (fs_files s')
              = map fst (fs_files s)
                @ map (\<lambda>tpl. path_join dir
                         (tpl_stem tpl @ asc ''__'' @ safe_filename L (PStr (py_str L cid))
                          @ asc ''.docx'')) tpls)"
proof -
  have a: "length (safe_filename L (PStr str)) = length str"
    by (simp add: safe_filename_str)
  have b: "\<forall>i<length str. safe_filename L (PStr str) ! i = (if allowed L (str ! i) then str ! i else 95)"
    by (simp add: safe_filename_str)
  have c: "safe_filename excerpt (PStr (asc ''A/B:C'')) = asc ''A_B_C''"
    by code_simp
  have d: "safe_filename excerpt (PStr [78, 103, 117, 121, 7877, 110, 32, 86, 259, 110, 32, 65])
       = [78, 103, 117, 121, 7877, 110, 32, 86, 259, 110, 32, 65]"
    by code_simp
  define cid where "cid = series_get row lbl_MaKH (PStr [])"
  define cname where "cname = series_get row lbl_HoTen (PStr [])"
  define dir where "dir = path_join out_root (folder_name L cid cname)"
  define s' where "s' = render_templates_for_customer L tpls out_root row items_all s"
  have s': "s' = render_loop L dir row cid (filter_items L items_all cid) tpls (mkdir dir s)"
    by (simp add: s'_def render_templates_for_customer_def Let_def cid_def cname_def dir_def)
  have e: "\<forall>c\<in>set (folder_name L cid cname). allowed L c"
    using folder_name_allowed by blast
  have f: "fs_dirs s' = fs_dirs (mkdir dir s)"
    by (simp add: s' render_loop_fold fold_save_dirs)
  have g: "map fst (fs_files s')
              = map fst (fs_files s)
                @ map (\<lambda>tpl. path_join dir
                         (tpl_stem tpl @ asc ''__'' @ safe_filename L (PStr (py_str L cid))
                          @ asc ''.docx'')) tpls"
    by (simp add: s' render_loop_fold fold_save_files mkdir_files out_name_def comp_def)
  have h: "folder_name L cid cname
            = strip_chars (\<lambda>c. c = 95)
                (safe_filename L (PStr (py_str L cid)) @ 95 # safe_filename L (PStr (py_str L cname)))"
    by (simp add: folder_name_def)
  show ?thesis
    unfolding Let_def cid_def [symmetric] cname_def [symmetric] dir_def [symmetric] s'_def [symmetric]
    using a b c d e f g h by blast
qed


theorem safe_filename_sanitizes_paths_witness:
  "map fst (fs_files (render_templates_for_customer excerpt
       [\<lparr> tpl_path = asc ''tpl/T1.docx'', tpl_stem = asc ''T1'' \<rparr>] [asc ''out'']
       ([lbl_MaKH, lbl_HoTen],
        (\<lambda>c. if c = lbl_MaKH then PStr (asc ''0/1'') else PStr (asc ''A:B'')))
       None \<lparr> fs_dirs = [], fs_files = [] \<rparr>))
     = [[asc ''out'', asc ''0_1_A_B'', asc ''T1__0_1.docx'']]"
proof -
  let ?row = "([lbl_MaKH, lbl_HoTen],
        (\<lambda>c. if c = lbl_MaKH then PStr (asc ''0/1'') else PStr (asc ''A:B'')))"
  let ?tpls = "[\<lparr> tpl_path = asc ''tpl/T1.docx'', tpl_stem = asc ''T1'' \<rparr>]"
  let ?s = "\<lparr> fs_dirs = [], fs_files = [] \<rparr>"
  have "map fst (fs_files (render_templates_for_customer excerpt ?tpls [asc ''out''] ?row None ?s))
      = map fst (fs_files ?s)
        @ map (\<lambda>tpl. path_join
                 (path_join [asc ''out'']
                    (folder_name excerpt (series_get ?row lbl_MaKH (PStr []))
                       (series_get ?row lbl_HoTen (PStr []))))
                 (tpl_stem tpl @ asc ''__''
                  @ safe_filename excerpt (PStr (py_str excerpt (series_get ?row lbl_MaKH (PStr []))))
                  @ asc ''.docx'')) ?tpls"
    using safe_filename_sanitizes_paths
      [where L = excerpt and row = ?row and out_root = "[asc ''out'']" and tpls = ?tpls
         and items_all = None and s = ?s]
    unfolding Let_def by blast
  also have "\<dots> = [[asc ''out'', asc ''0_1_A_B'', asc ''T1__0_1.docx'']]"
    by code_simp
  finally show ?thesis .
qed

lemma doc_render_table:
  "doc_render doc (build_context_for_customer L doc row items)
     = \<lparr> d_template = doc,
         d_TenKH = val row lbl_HoTen,
         d_NgaySinh = format_date L (val row lbl_NgaySinh) (asc ''%d/%m/%Y''),
         d_DiaChi = val row lbl_DiaChi,
         d_SoDienThoai = val row lbl_SoDienThoai,
         d_MaKH = val row lbl_MaKH,
         d_table = sd_body (build_goods_table_subdoc L d0 items) \<rparr>"
  using subdoc_body_any_doc [of L doc items d0]
  by (simp add: doc_render_def build_context_for_customer_def)

text \<open>
  Claim C1. The body of the item table does not depend on the template whose document
  builds it; rendering the templates of a customer as the source does, the table rebuilt
  for each template, gives the same directories and files as building the fragment once
  and giving it to every template; the tables embedded in the customer's documents are
  all that one fragment.
\<close>

theorem item_table_build_once:
  "sd_body (build_goods_table_subdoc L d1 items) = sd_body (build_goods_table_subdoc L d2 items)
   \<and> render_templates_for_customer L tpls out_root row items_all s
       = render_build_once L d0 tpls out_root row items_all s
   \<and> map (\<lambda>f. d_table (snd f))
         (drop (length (fs_files s))
            (fs_files (render_templates_for_customer L tpls out_root row items_all s)))
       = replicate (length tpls)
           (sd_body (build_goods_table_subdoc L d0
              (Some (filter_items L items_all (series_get row lbl_MaKH (PStr []))))))"
proof -
  have a: "sd_body (build_goods_table_subdoc L d1 items) = sd_body (build_goods_table_subdoc L d2 items)"
    by (rule subdoc_body_any_doc)
  have b: "render_templates_for_customer L tpls out_root row items_all s
       = render_build_once L d0 tpls out_root row items_all s"
    by (simp add: render_templates_for_customer_def render_build_once_def Let_def
          render_loop_fold doc_render_table [where ?d0.0 = d0])
  have c: "map (\<lambda>f. d_table (snd f))
         (drop (length (fs_files s))
            (fs_files (render_templates_for_customer L tpls out_root row items_all s)))
       = replicate (length tpls)
           (sd_body (build_goods_table_subdoc L d0
              (Some (filter_items L items_all (series_get row lbl_MaKH (PStr []))))))"
    by (simp add: render_templates_for_customer_def Let_def render_loop_fold fold_save_files
          mkdir_files doc_render_table [where ?d0.0 = d0] comp_def map_replicate_const)
  show ?thesis using a b c by simp
qed

section \<open>Sheets and required columns\<close>

lemma sheet_step_eq:
  "sheet_step L s (h, g) =
     (if is_profile L s \<and> h = None then Some s else h,
      if is_goods L s \<and> g = None then Some s else g)"
  by (auto simp: sheet_step_def is_profile_def is_goods_def Let_def)

lemma sheets_loop_eq:
  "sheets_loop L names (h, g) =
     (case h of None \<Rightarrow> find (is_profile L) names | Some x \<Rightarrow> Some x,
      case g of None \<Rightarrow> find (is_goods L) names | Some x \<Rightarrow> Some x)"
proof (induction names arbitrary: h g)
  case Nil
  show ?case by (simp split: option.split)
next
  case (Cons s names)
  show ?case
    by (simp add: sheet_step_eq Cons.IH split: option.split)
qed

lemma find_sheet_names_unresolved:
  assumes "(\<forall>s\<in>set names. \<not> is_profile L s) \<or> (\<forall>s\<in>set names. \<not> is_goods L s)"
  shows "find_sheet_names L names = Inl (SheetsNotFound names)"
proof -
  have "find (is_profile L) names = None \<or> find (is_goods L) names = None"
    using assms by (auto simp: find_None_iff)
  then show ?thesis
    by (auto simp: find_sheet_names_def sheets_loop_eq split: option.split)
qed

text \<open>
  Claim C7. For every list of sheet names in which no sheet is of the profile category or
  no sheet is of the goods category, \<open>find_sheet_names\<close> fails with the error that carries
  all the sheet names, the run ends with an error, and no file has been saved; when the
  paths and templates were found, the error of the run is that one and the only directory
  made is the output directory itself.
\<close>

theorem unresolved_sheets_abort:
  assumes "(\<forall>s\<in>set (sheet_names (xlsx e)). \<not> is_profile L s)
           \<or> (\<forall>s\<in>set (sheet_names (xlsx e)). \<not> is_goods L s)"
  shows "find_sheet_names L (sheet_names (xlsx e)) = Inl (SheetsNotFound (sheet_names (xlsx e)))
    \<and> (\<exists>err. fst (main L e s) = Inl err)
    \<and> fs_files (snd (main L e s)) = fs_files s
    \<and> (xlsx_exists e \<and> template_dir_exists e \<and> templates_found e \<noteq> [] \<longrightarrow>
         main L e s = (Inl (SheetsNotFound (sheet_names (xlsx e))), mkdir (output_dir e) s))"
proof -
  have a: "find_sheet_names L (sheet_names (xlsx e)) = Inl (SheetsNotFound (sheet_names (xlsx e)))"
    using assms by (rule find_sheet_names_unresolved)
  then have r: "read_excel_data L (xlsx e) = Inl (SheetsNotFound (sheet_names (xlsx e)))"
    by (simp add: read_excel_data_def)
  show ?thesis
    using a r by (simp add: main_def Let_def mkdir_def)
qed


theorem unresolved_sheets_abort_witness:
  "main excerpt book_other_sheets fs0
     = (Inl (SheetsNotFound [asc ''Sheet1'', asc ''Data'']),
        \<lparr> fs_dirs = [[asc ''output'']], fs_files = [] \<rparr>)"
proof -
  have h: "(\<forall>s\<in>set (sheet_names (xlsx book_other_sheets)). \<not> is_profile excerpt s)
           \<or> (\<forall>s\<in>set (sheet_names (xlsx book_other_sheets)). \<not> is_goods excerpt s)"
    by code_simp
  have p: "xlsx_exists book_other_sheets \<and> template_dir_exists book_other_sheets
           \<and> templates_found book_other_sheets \<noteq> []"
    by (simp add: book_other_sheets_def one_template_def)
  have "main excerpt book_other_sheets fs0
          = (Inl (SheetsNotFound (sheet_names (xlsx book_other_sheets))),
             mkdir (output_dir book_other_sheets) fs0)"
    using unresolved_sheets_abort [OF h, of fs0] p by blast
  then show ?thesis
    by (simp add: book_other_sheets_def mkdir_def fs0_def)
qed






section \<open>The integer format\<close>

lemma floor_half: "\<lfloor>(of_int k :: rat) + 1 / 2\<rfloor> = k"
  by (rule floor_unique) simp_all

lemma round_half_even_tie:
  "round_half_even (of_int k + 1 / 2) = (if even k then k else k + 1)"
  by (simp add: round_half_even_def floor_half Let_def)




lemma dec_digits_nonempty: "dec_digits n \<noteq> []"
  by (simp add: dec_digits.simps [of n])
















lemma format_int_cases:
  "format_int L v =
     (if isna v \<or> v = PStr [] then []
      else case parsed_number L v of
        Some q \<Rightarrow> dotted (round_half_even q)
      | None \<Rightarrow> py_str L v)"
proof (cases "py_float L v")
  case (Inl e)
  then show ?thesis
    by (simp add: format_int_def format_int_try_def parsed_number_def)
next
  case (Inr x)
  then show ?thesis
    by (cases x)
      (simp_all add: format_int_def format_int_try_def parsed_number_def dotted_def
         round_half_even_def)
qed




text \<open>
  Claim C10. A value exactly halfway between two integers is rounded to the even one:
  \<open>2.5\<close> gives \<open>2\<close>, \<open>3.5\<close> gives \<open>4\<close>, \<open>-2.5\<close> gives \<open>-2\<close>.
\<close>

theorem format_int_half_even:
  "(py_float L v = Inr (Fin (of_int k + 1 / 2)) \<and> v \<noteq> PStr [] \<longrightarrow>
      format_int L v = dotted (if even k then k else k + 1))
   \<and> format_int L (PFloat (Fin (5 / 2))) = asc ''2''
   \<and> format_int L (PFloat (Fin (7 / 2))) = asc ''4''
   \<and> format_int L (PFloat (Fin (- 5 / 2))) = asc ''-2''
   \<and> format_int excerpt (PStr (asc ''2.5'')) = asc ''2''"
proof -
  have a: "format_int L v = dotted (if even k then k else k + 1)"
    if h: "py_float L v = Inr (Fin (of_int k + 1 / 2)) \<and> v \<noteq> PStr []"
  proof -
    have "\<not> isna v" using h by (auto simp: isna_def)
    then show ?thesis
      using h by (simp add: format_int_cases parsed_number_def round_half_even_tie)
  qed
  have t: "\<And>k. format_int L (PFloat (Fin (of_int k + 1 / 2))) = dotted (if even k then k else k + 1)"
    by (simp add: format_int_cases parsed_number_def round_half_even_tie isna_def)
  have b: "format_int L (PFloat (Fin (5 / 2))) = asc ''2''"
  proof -
    have "dotted 2 = asc ''2''" by code_simp
    then show ?thesis using t [of 2] by simp
  qed
  have c: "format_int L (PFloat (Fin (7 / 2))) = asc ''4''"
  proof -
    have "dotted 4 = asc ''4''" by code_simp
    then show ?thesis using t [of 3] by simp
  qed
  have d: "format_int L (PFloat (Fin (- 5 / 2))) = asc ''-2''"
  proof -
    have "dotted (- 2) = asc ''-2''" by code_simp
    then show ?thesis using t [of "- 3"] by simp
  qed
  have e: "format_int excerpt (PStr (asc ''2.5'')) = asc ''2''" by code_simp
  show ?thesis using a b c d e by blast
qed

theorem format_int_half_even_witness:
  "format_int excerpt (PStr (asc ''3.5'')) = asc ''4''"
proof -
  have p: "py_float excerpt (PStr (asc ''3.5'')) = Inr (Fin (of_int 3 + 1 / 2))
           \<and> PStr (asc ''3.5'') \<noteq> PStr []"
    by code_simp
  have d: "dotted (if even (3::int) then 3 else 3 + 1) = asc ''4''" by code_simp
  show ?thesis
    using format_int_half_even [of excerpt "PStr (asc ''3.5'')" 3] p d by simp
qed

section \<open>The derived line total\<close>












section \<open>The normalized key\<close>

lemma strip_accents_str: "strip_accents L (PStr s) = PStr (strip_str L s)"
  by (simp add: strip_accents.simps strip_str_def)

lemma normalize_key_str: "normalize_key L (PStr s) = PStr (key_str L s)"
  by (simp add: normalize_key.simps strip_accents.simps key_str_def strip_str_def)

lemma canon_order_filter:
  "\<forall>c\<in>set run. k c \<noteq> 0 \<Longrightarrow>
     filter (\<lambda>c. k c = 0) (canon_order k run cs) = filter (\<lambda>c. k c = 0) cs"
proof (induction cs arbitrary: run)
  case Nil
  then have "filter (\<lambda>c. k c = 0) (sort_key k run) = []"
    by (simp add: filter_empty_conv)
  then show ?case by simp
next
  case (Cons c cs)
  show ?case
  proof (cases "k c = 0")
    case True
    have "filter (\<lambda>c. k c = 0) (sort_key k run) = []"
      using Cons.prems by (simp add: filter_empty_conv)
    then show ?thesis using True Cons.IH [of "[]"] by simp
  next
    case False
    then show ?thesis using Cons.IH [of "run @ [c]"] Cons.prems by simp
  qed
qed

lemma canon_order_starters:
  "\<forall>c\<in>set cs. k c = 0 \<Longrightarrow> canon_order k [] cs = cs"
  by (induction cs) simp_all

lemma strip_str_hom:
  "strip_str L s = concat (map (\<lambda>c. filter (\<lambda>d. combining L d = 0) (nfd_char L c)) s)"
  by (simp add: strip_str_def nfd_def canon_order_filter filter_concat comp_def)

lemma lower_from_plain:
  "931 \<notin> set s \<Longrightarrow> lower_from L seen s = concat (map (lower_full L) s)"
  by (induction s arbitrary: seen) auto

lemma py_lower_plain: "931 \<notin> set s \<Longrightarrow> py_lower L s = concat (map (lower_full L) s)"
  by (simp add: py_lower_def lower_from_plain)

lemma lower_from_chars:
  assumes "d \<in> set (lower_from L seen s)"
  shows "d = 962 \<or> d = 963 \<or> (\<exists>c\<in>set s. c \<noteq> 931 \<and> d \<in> set (lower_full L c))"
  using assms
  by (induction s arbitrary: seen) (auto split: if_splits)

lemma strip_str_base:
  assumes "ucd_facts L" "d \<in> set (strip_str L s)"
  shows "base_char L d"
proof -
  from assms(2) obtain c where "d \<in> set (nfd_char L c)" "combining L d = 0"
    by (auto simp: strip_str_hom)
  moreover have "\<forall>c. \<forall>d\<in>set (nfd_char L c). nfd_char L d = [d]"
    using assms(1) by (simp add: ucd_facts_def)
  ultimately show ?thesis by (auto simp: base_char_def)
qed

lemma key_str_key_char:
  assumes f: "ucd_facts L" and d: "d \<in> set (key_str L s)"
  shows "key_char L d \<and> d \<noteq> 32"
proof -
  have d32: "d \<noteq> 32" and dl: "d \<in> set (lower_from L [] (strip_str L s))"
    using d by (auto simp: key_str_def py_lower_def)
  have p2: "\<forall>c. base_char L c \<longrightarrow> (\<forall>d\<in>set (lower_full L c). key_char L d)"
    and p3: "key_char L 963" "key_char L 962"
    using f by (simp_all add: ucd_facts_def)
  from lower_from_chars [OF dl] have "key_char L d"
  proof (elim disjE bexE conjE)
    assume "d = 962" then show ?thesis using p3 by simp
  next
    assume "d = 963" then show ?thesis using p3 by simp
  next
    fix c assume "c \<in> set (strip_str L s)" "d \<in> set (lower_full L c)"
    then show ?thesis using strip_str_base [OF f] p2 by blast
  qed
  then show ?thesis using d32 by simp
qed

lemma nfd_fixed:
  assumes "\<forall>d\<in>set t. base_char L d"
  shows "nfd L t = t"
proof -
  have "concat (map (nfd_char L) t) = t"
    using assms by (induction t) (simp_all add: base_char_def)
  moreover have "\<forall>c\<in>set t. combining L c = 0" using assms by (simp add: base_char_def)
  ultimately show ?thesis by (simp add: nfd_def canon_order_starters)
qed

lemma strip_str_fixed:
  assumes "\<forall>d\<in>set t. base_char L d"
  shows "strip_str L t = t"
proof -
  have "\<forall>c\<in>set t. combining L c = 0" using assms by (simp add: base_char_def)
  then show ?thesis by (simp add: strip_str_def nfd_fixed [OF assms] filter_id_conv)
qed

lemma py_lower_fixed:
  assumes "\<forall>d\<in>set t. key_char L d"
  shows "py_lower L t = t"
proof -
  have "931 \<notin> set t" using assms by (auto simp: key_char_def)
  moreover have "concat (map (lower_full L) t) = t"
    using assms by (induction t) (simp_all add: key_char_def)
  ultimately show ?thesis by (simp add: py_lower_plain)
qed

lemma key_str_fixed:
  assumes "\<forall>d\<in>set t. key_char L d \<and> d \<noteq> 32"
  shows "key_str L t = t"
proof -
  have st: "\<forall>d\<in>set t. base_char L d" and kc: "\<forall>d\<in>set t. key_char L d"
    using assms by (simp_all add: key_char_def)
  have "\<forall>d\<in>set t. d \<noteq> 32" using assms by simp
  then show ?thesis
    by (simp add: key_str_def strip_str_fixed [OF st] py_lower_fixed [OF kc] filter_id_conv)
qed

lemma key_str_idem: "ucd_facts L \<Longrightarrow> key_str L (key_str L s) = key_str L s"
  using key_str_key_char [of L _ s] by (intro key_str_fixed) blast

lemma strip_str_idem: "ucd_facts L \<Longrightarrow> strip_str L (strip_str L s) = strip_str L s"
  using strip_str_base [of L _ s] by (intro strip_str_fixed) blast


lemma concat_map_concat:
  "concat (map f (concat (map g s))) = concat (map (\<lambda>c. concat (map f (g c))) s)"
  by (induction s) simp_all

lemma filter_concat_map:
  "filter P (concat (map f s)) = concat (map (\<lambda>c. filter P (f c)) s)"
  by (induction s) simp_all

lemma strip_str_no_sigma:
  assumes f: "ucd_facts L" and s: "931 \<notin> set s"
  shows "931 \<notin> set (strip_str L s)"
proof
  assume "931 \<in> set (strip_str L s)"
  then obtain c where c: "c \<in> set s" "931 \<in> set (nfd_char L c)"
    by (auto simp: strip_str_hom)
  have "\<forall>c. c \<noteq> 931 \<longrightarrow> 931 \<notin> set (nfd_char L c)"
    using f by (simp add: ucd_facts_def)
  moreover have "c \<noteq> 931" using c(1) s by blast
  ultimately show False using c(2) by blast
qed

lemma key_str_hom:
  assumes f: "ucd_facts L" and s: "931 \<notin> set s"
  shows "key_str L s = concat (map (\<lambda>c. key_str L [c]) s)"
proof -
  let ?g = "\<lambda>c. filter (\<lambda>d. combining L d = 0) (nfd_char L c)"
  have one: "key_str L [c] = filter (\<lambda>c. c \<noteq> 32) (concat (map (lower_full L) (?g c)))"
    if "c \<noteq> 931" for c
  proof -
    have "931 \<notin> set (strip_str L [c])" using strip_str_no_sigma [OF f, of "[c]"] that by simp
    then show ?thesis by (simp add: key_str_def py_lower_plain) (simp add: strip_str_hom)
  qed
  have "key_str L s = filter (\<lambda>c. c \<noteq> 32) (concat (map (lower_full L) (strip_str L s)))"
    using strip_str_no_sigma [OF f s] by (simp add: key_str_def py_lower_plain)
  also have "\<dots> = concat (map (\<lambda>c. filter (\<lambda>c. c \<noteq> 32) (concat (map (lower_full L) (?g c)))) s)"
    unfolding strip_str_hom concat_map_concat filter_concat_map ..
  also have "\<dots> = concat (map (\<lambda>c. key_str L [c]) s)"
  proof -
    have "\<And>x. x \<in> set s \<Longrightarrow> x \<noteq> 931" using s by blast
    then show ?thesis
      by (intro arg_cong [where f = concat] map_cong) (simp_all add: one)
  qed
  finally show ?thesis .
qed

lemma key_str_space: "ucd_facts L \<Longrightarrow> key_str L [32] = []"
proof -
  assume f: "ucd_facts L"
  then have "base_char L 32" "lower_full L 32 = [32]" by (simp_all add: ucd_facts_def)
  then show ?thesis
    by (simp add: key_str_def strip_str_hom base_char_def py_lower_plain)
qed

lemma key_str_spaces:
  assumes f: "ucd_facts L" and s: "931 \<notin> set s"
  shows "key_str L (filter (\<lambda>c. c \<noteq> 32) s) = key_str L s"
proof -
  have s': "931 \<notin> set (filter (\<lambda>c. c \<noteq> 32) s)" using s by simp
  have "concat (map (\<lambda>c. key_str L [c]) (filter (\<lambda>c. c \<noteq> 32) s))
        = concat (map (\<lambda>c. key_str L [c]) s)"
    by (induction s) (simp_all add: key_str_space [OF f])
  then show ?thesis
    by (simp add: key_str_hom [OF f s] key_str_hom [OF f s'])
qed

lemma key_str_lower:
  assumes f: "ucd_facts L" and s: "931 \<notin> set s"
  shows "key_str L (py_lower L s) = key_str L s"
proof -
  have p5: "\<forall>c. 931 \<notin> set (lower_full L c)"
    and c1: "\<forall>c. c \<noteq> 931 \<longrightarrow> key_str L (lower_full L c) = key_str L [c]"
    using f by (simp_all add: ucd_facts_def)
  have low: "py_lower L s = concat (map (lower_full L) s)" using s by (rule py_lower_plain)
  have ns: "931 \<notin> set (concat (map (lower_full L) s))" using p5 by auto
  have "key_str L (py_lower L s)
        = concat (map (\<lambda>c. key_str L [c]) (concat (map (lower_full L) s)))"
    unfolding low by (rule key_str_hom [OF f ns])
  also have "\<dots> = concat (map (\<lambda>c. concat (map (\<lambda>d. key_str L [d]) (lower_full L c))) s)"
    by (rule concat_map_concat)
  also have "\<dots> = concat (map (\<lambda>c. key_str L (lower_full L c)) s)"
    using p5 by (simp add: key_str_hom [OF f, symmetric])
  also have "\<dots> = concat (map (\<lambda>c. key_str L [c]) s)"
  proof -
    have "\<And>x. x \<in> set s \<Longrightarrow> x \<noteq> 931" using s by blast
    then show ?thesis
      using c1 by (intro arg_cong [where f = concat] map_cong) simp_all
  qed
  also have "\<dots> = key_str L s" by (rule key_str_hom [OF f s, symmetric])
  finally show ?thesis .
qed

lemma key_str_strip: "ucd_facts L \<Longrightarrow> key_str L (strip_str L s) = key_str L s"
  by (simp add: key_str_def strip_str_idem)

subsection \<open>The facts hold of the excerpt\<close>

lemma rows_all:
  "list_all (\<lambda>(c, ds). P c ds) rows \<Longrightarrow> map_of rows c = Some ds \<Longrightarrow> P c ds"
  by (auto simp: list_all_iff dest: map_of_SomeD)

lemma excerpt_nfd_char:
  "nfd_char excerpt c =
     (if c < 192 then [c] else case map_of ucd_nfd_rows c of Some ds \<Rightarrow> ds | None \<Rightarrow> [c])"
  by (simp add: excerpt_def)

lemma excerpt_combining:
  "combining excerpt c =
     (if c < 768 then 0 else case map_of ucd_ccc_rows c of Some k \<Rightarrow> k | None \<Rightarrow> 0)"
  by (simp add: excerpt_def)

lemma excerpt_lower_full:
  "lower_full excerpt c =
     (if ascii_upper c then [c + 32]
      else if c < 192 then [c]
      else case map_of ucd_lower_rows c of Some ds \<Rightarrow> ds | None \<Rightarrow> [c])"
  by (simp add: excerpt_def)

lemma excerpt_sigma_row: "map_of ucd_lower_rows 931 = Some [963]"
  by code_simp

lemma excerpt_ascii_key_char:
  assumes "c < 192" "\<not> ascii_upper c"
  shows "key_char excerpt c"
  using assms
  by (simp add: key_char_def base_char_def excerpt_nfd_char excerpt_combining excerpt_lower_full)

lemma excerpt_P1: "\<forall>c. \<forall>d\<in>set (nfd_char excerpt c). nfd_char excerpt d = [d]"
proof (intro allI ballI)
  fix c d assume d: "d \<in> set (nfd_char excerpt c)"
  have rows: "list_all (\<lambda>(c, ds). list_all (\<lambda>d. nfd_char excerpt d = [d]) ds) ucd_nfd_rows"
    by code_simp
  show "nfd_char excerpt d = [d]"
  proof (cases "c < 192")
    case True
    then show ?thesis using d by (simp add: excerpt_nfd_char)
  next
    case False
    show ?thesis
    proof (cases "map_of ucd_nfd_rows c")
      case None
      then show ?thesis using d False by (simp add: excerpt_nfd_char)
    next
      case (Some ds)
      then have "list_all (\<lambda>d. nfd_char excerpt d = [d]) ds"
        using rows_all [OF rows] by blast
      moreover have "d \<in> set ds" using d False Some by (simp add: excerpt_nfd_char)
      ultimately show ?thesis by (simp add: list_all_iff)
    qed
  qed
qed

lemma excerpt_P2:
  "\<forall>c. base_char excerpt c \<longrightarrow> (\<forall>d\<in>set (lower_full excerpt c). key_char excerpt d)"
proof (intro allI impI ballI)
  fix c d assume b: "base_char excerpt c" and d: "d \<in> set (lower_full excerpt c)"
  have rows: "list_all (\<lambda>(c, ds). base_char excerpt c \<longrightarrow> list_all (key_char excerpt) ds)
                ucd_lower_rows"
    by code_simp
  show "key_char excerpt d"
  proof (cases "ascii_upper c")
    case True
    then have "d = c + 32" using d by (simp add: excerpt_lower_full)
    then show ?thesis using True
      by (intro excerpt_ascii_key_char) (simp_all add: ascii_upper_def)
  next
    case nu: False
    show ?thesis
    proof (cases "c < 192")
      case True
      then have "d = c" using d nu by (simp add: excerpt_lower_full)
      then show ?thesis using True nu by (simp add: excerpt_ascii_key_char)
    next
      case False
      show ?thesis
      proof (cases "map_of ucd_lower_rows c")
        case None
        then have dc: "d = c" and lf: "lower_full excerpt c = [c]"
          using d nu False by (simp_all add: excerpt_lower_full)
        have "c \<noteq> 931" using None excerpt_sigma_row by auto
        then show ?thesis using b lf dc by (simp add: key_char_def)
      next
        case (Some ds)
        then have "list_all (key_char excerpt) ds" using rows_all [OF rows] b by blast
        moreover have "d \<in> set ds" using d nu False Some by (simp add: excerpt_lower_full)
        ultimately show ?thesis by (simp add: list_all_iff)
      qed
    qed
  qed
qed

lemma excerpt_P4: "\<forall>c. c \<noteq> 931 \<longrightarrow> 931 \<notin> set (nfd_char excerpt c)"
proof (intro allI impI)
  fix c :: cp assume c: "c \<noteq> 931"
  have rows: "list_all (\<lambda>(c, ds). 931 \<notin> set ds) ucd_nfd_rows"
    by code_simp
  show "931 \<notin> set (nfd_char excerpt c)"
  proof (cases "map_of ucd_nfd_rows c")
    case None
    then show ?thesis using c by (simp add: excerpt_nfd_char)
  next
    case (Some ds)
    then have "931 \<notin> set ds" using rows_all [OF rows] by blast
    then show ?thesis using c Some by (simp add: excerpt_nfd_char)
  qed
qed

lemma excerpt_P5: "\<forall>c. 931 \<notin> set (lower_full excerpt c)"
proof
  fix c :: cp
  have rows: "list_all (\<lambda>(c, ds). 931 \<notin> set ds) ucd_lower_rows"
    by code_simp
  show "931 \<notin> set (lower_full excerpt c)"
  proof (cases "map_of ucd_lower_rows c")
    case None
    then have "c \<noteq> 931" using excerpt_sigma_row by auto
    then show ?thesis using None by (simp add: excerpt_lower_full ascii_upper_def)
  next
    case (Some ds)
    then have "931 \<notin> set ds" using rows_all [OF rows] by blast
    then show ?thesis using Some by (auto simp: excerpt_lower_full ascii_upper_def)
  qed
qed

lemma excerpt_C1: "\<forall>c. c \<noteq> 931 \<longrightarrow> key_str excerpt (lower_full excerpt c) = key_str excerpt [c]"
proof (intro allI impI)
  fix c :: cp assume c: "c \<noteq> 931"
  have rows: "list_all (\<lambda>(c, ds). c = 931 \<or> key_str excerpt ds = key_str excerpt [c]) ucd_lower_rows"
    by code_simp
  have upper: "list_all (\<lambda>c. key_str excerpt [c + 32] = key_str excerpt [c]) [65..<91]"
    by code_simp
  show "key_str excerpt (lower_full excerpt c) = key_str excerpt [c]"
  proof (cases "ascii_upper c")
    case True
    then have "c \<in> set [65..<91]"
      unfolding ascii_upper_def set_upt atLeastLessThan_iff by linarith
    then have "key_str excerpt [c + 32] = key_str excerpt [c]"
      using upper unfolding list_all_iff by blast
    then show ?thesis using True by (simp add: excerpt_lower_full)
  next
    case nu: False
    show ?thesis
    proof (cases "map_of ucd_lower_rows c")
      case None
      then show ?thesis using nu by (simp add: excerpt_lower_full)
    next
      case (Some ds)
      then have "c = 931 \<or> key_str excerpt ds = key_str excerpt [c]"
        using rows_all [OF rows] by blast
      then show ?thesis using c nu Some by (simp add: excerpt_lower_full)
    qed
  qed
qed

lemma excerpt_facts: "ucd_facts excerpt"
proof -
  have p3: "key_char excerpt 963 \<and> key_char excerpt 962
            \<and> base_char excerpt 32 \<and> lower_full excerpt 32 = [32]"
    by code_simp
  show ?thesis
    unfolding ucd_facts_def
    using excerpt_P1 excerpt_P2 p3 excerpt_P4 excerpt_P5 excerpt_C1 by blast
qed

subsection \<open>Idempotence and insensitivity\<close>

text \<open>
  Claim C5, as stated, fails on space-insensitivity: the Greek string alpha, capital sigma,
  space, alpha (U+0391 U+03A3 U+0020 U+0391) has the key alpha, final sigma, alpha, and
  the same string without its space has the key alpha, small sigma, alpha, because
  \<open>str.lower\<close> turns a capital sigma at the end of a word into the final sigma.
\<close>

theorem normalize_key_space_counterexample:
  "filter (\<lambda>c. c \<noteq> 32) [913, 931, 32, 913 :: cp] = [913, 931, 913]
   \<and> normalize_key excerpt (PStr [913, 931, 32, 913]) = PStr [945, 962, 945]
   \<and> normalize_key excerpt (PStr [913, 931, 913]) = PStr [945, 963, 945]"
  by code_simp

text \<open>
  Claim C5, amended. Under the facts \<open>ucd_facts\<close> of the Unicode data (they hold of the
  excerpt), for every string \<open>s\<close>: \<open>normalize_key\<close> is idempotent; its key holds no
  space and no combining mark and is its own lowercase; the key of \<open>strip_accents s\<close> is
  the key of \<open>s\<close>; and when the Greek capital sigma does not occur in \<open>s\<close>, the key of
  the lowercase of \<open>s\<close> and the key of \<open>s\<close> without its spaces are the key of \<open>s\<close>. The
  accented \<open>Hang Hoa\<close> (U+00E0, U+00E1) and \<open>hang hoa\<close> have the same key. A letter with
  a stroke has no decomposition and is kept: the keys of the accented \<open>Don gia\<close>
  (U+0110, U+01A1, U+00E1) and of \<open>Don gia\<close> differ.
\<close>

theorem normalize_key_idempotent:
  assumes "ucd_facts L"
  shows "normalize_key L (normalize_key L (PStr s)) = normalize_key L (PStr s)
    \<and> normalize_key L (strip_accents L (PStr s)) = normalize_key L (PStr s)
    \<and> (931 \<notin> set s \<longrightarrow> normalize_key L (PStr (py_lower L s)) = normalize_key L (PStr s))
    \<and> (931 \<notin> set s \<longrightarrow>
          normalize_key L (PStr (filter (\<lambda>c. c \<noteq> 32) s)) = normalize_key L (PStr s))
    \<and> normalize_key L (PStr s) = PStr (key_str L s)
    \<and> 32 \<notin> set (key_str L s)
    \<and> (\<forall>c\<in>set (key_str L s). combining L c = 0)
    \<and> py_lower L (key_str L s) = key_str L s
    \<and> normalize_key excerpt (PStr [72, 224, 110, 103, 32, 72, 111, 225])
        = normalize_key excerpt (PStr (asc ''hang hoa''))
    \<and> normalize_key excerpt lbl_DonGia \<noteq> normalize_key excerpt (PStr (asc ''Don gia''))"
proof -
  note f = assms
  have kc: "\<forall>d\<in>set (key_str L s). key_char L d \<and> d \<noteq> 32"
    using key_str_key_char [OF f] by blast
  have a: "normalize_key L (normalize_key L (PStr s)) = normalize_key L (PStr s)"
    by (simp add: normalize_key_str key_str_idem [OF f])
  have b: "normalize_key L (strip_accents L (PStr s)) = normalize_key L (PStr s)"
    by (simp add: normalize_key_str strip_accents_str key_str_strip [OF f])
  have c: "normalize_key L (PStr (py_lower L s)) = normalize_key L (PStr s)" if "931 \<notin> set s"
    using that by (simp add: normalize_key_str key_str_lower [OF f])
  have d: "normalize_key L (PStr (filter (\<lambda>c. c \<noteq> 32) s)) = normalize_key L (PStr s)"
    if "931 \<notin> set s"
    using that by (simp add: normalize_key_str key_str_spaces [OF f])
  have e: "normalize_key L (PStr s) = PStr (key_str L s)" by (rule normalize_key_str)
  have g: "32 \<notin> set (key_str L s)" using kc by blast
  have h: "\<forall>c\<in>set (key_str L s). combining L c = 0"
    using kc by (simp add: key_char_def base_char_def)
  have i: "py_lower L (key_str L s) = key_str L s"
    using kc by (intro py_lower_fixed) blast
  have j: "normalize_key excerpt (PStr [72, 224, 110, 103, 32, 72, 111, 225])
        = normalize_key excerpt (PStr (asc ''hang hoa''))"
    by code_simp
  have k: "normalize_key excerpt lbl_DonGia \<noteq> normalize_key excerpt (PStr (asc ''Don gia''))"
    by code_simp
  show ?thesis using a b c d e g h i j k by blast
qed

theorem normalize_key_idempotent_witness:
  "normalize_key excerpt (normalize_key excerpt (PStr [72, 224, 110, 103, 32, 72, 111, 225]))
     = normalize_key excerpt (PStr [72, 224, 110, 103, 32, 72, 111, 225])
   \<and> normalize_key excerpt (PStr (filter (\<lambda>c. c \<noteq> 32) [72, 224, 110, 103, 32, 72, 111, 225]))
     = normalize_key excerpt (PStr [72, 224, 110, 103, 32, 72, 111, 225])
   \<and> normalize_key excerpt (PStr (py_lower excerpt [72, 224, 110, 103, 32, 72, 111, 225]))
     = normalize_key excerpt (PStr [72, 224, 110, 103, 32, 72, 111, 225])"
proof -
  have s: "931 \<notin> set [72, 224, 110, 103, 32, 72, 111, 225 :: cp]" by simp
  show ?thesis
    using normalize_key_idempotent [OF excerpt_facts, of "[72, 224, 110, 103, 32, 72, 111, 225]"] s
    by blast
qed

end
